theory Spec2Isabelle
  imports Main "HOL-Library.Word"
begin

section \<open>Package: the ZIP archive and its manifest\<close>

text \<open>
  The archive is read through libzip. A member of the archive is its uncompressed
  contents together with the two ways libzip can fail on a member that exists:
  opening it (\<open>zip_fopen\<close>, \<open>zip_fopen_index\<close> return NULL) and reading it
  (\<open>zip_fread\<close> returns -1). An archive maps member names to members; \<open>zip_stat\<close>
  fails exactly on the names outside its domain.
\<close>

record zip_member =
  m_data :: string
  m_opens :: bool
  m_read_error :: bool

type_synonym zip_t = "string \<rightharpoonup> zip_member"

text \<open>An open member (\<open>zip_file_t*\<close>, non-NULL): its name and the member.\<close>

type_synonym zip_file_t = "string \<times> zip_member"

definition zip_fopen :: "zip_t \<Rightarrow> string \<Rightarrow> zip_file_t option" where
  "zip_fopen z name =
     (case z name of
        None \<Rightarrow> None
      | Some m \<Rightarrow> if m_opens m then Some (name, m) else None)"

text \<open>
  \<open>zip_fread(zf, buf, n)\<close>: the return value and the bytes stored at \<open>buf\<close>.
\<close>

definition zip_fread :: "zip_file_t \<Rightarrow> nat \<Rightarrow> int \<times> string" where
  "zip_fread zf n =
     (if m_read_error (snd zf) then (- 1, [])
      else (int (length (take n (m_data (snd zf)))), take n (m_data (snd zf))))"

text \<open>
  \<open>zip_file_open\<close>: \<open>zip_stat\<close>, then \<open>*size = stat.size\<close>, then
  \<open>zip_fopen_index\<close>. The result is the handle with the size; the size stored
  on the path where the open fails is never read by the caller.
\<close>

definition zip_file_open :: "zip_t \<Rightarrow> string \<Rightarrow> (zip_file_t \<times> nat) option" where
  "zip_file_open z name =
     (case z name of
        None \<Rightarrow> None
      | Some m \<Rightarrow>
          (let size = length (m_data m) in
           if m_opens m then Some ((name, m), size) else None))"

text \<open>
  json-c values as the program sees them. \<open>JNull\<close> is the NULL pointer, which json-c
  uses both for a text that does not parse and for the literal \<open>null\<close>.
\<close>

datatype json_object =
    JNull
  | JString string
  | JObject "(string \<times> json_object) list"
  | JOther string

fun json_object_object_get_ex :: "json_object \<Rightarrow> string \<Rightarrow> json_object option" where
  "json_object_object_get_ex (JObject kvs) key = map_of kvs key"
| "json_object_object_get_ex _ key = None"

text \<open>
  What the program runs on: the results of the library calls of \<open>main\<close> that depend on
  the outside world. \<open>json_tokener_parse\<close> is json-c's parser, \<open>json_to_string\<close> the
  text json-c returns from \<open>json_object_get_string\<close> for an object,
  \<open>stack_residue\<close> the bytes that follow the bytes read in \<open>buf\<close> (the
  buffer is neither initialised nor terminated by the program), \<open>dfu_ping\<close> the result of
  the i-th call of \<open>dfu_ping()\<close>.
\<close>

record host =
  zip_open :: "zip_t option"
  json_tokener_parse :: "string \<Rightarrow> json_object"
  json_to_string :: "json_object \<Rightarrow> string"
  stack_residue :: string
  serial_init :: int
  dfu_ping :: "nat \<Rightarrow> bool"

text \<open>\<open>json_object_get_string\<close>; \<open>None\<close> is the NULL it returns for NULL.\<close>

fun json_object_get_string :: "host \<Rightarrow> json_object \<Rightarrow> string option" where
  "json_object_get_string h JNull = None"
| "json_object_get_string h (JString s) = Some s"
| "json_object_get_string h (JOther t) = Some t"
| "json_object_get_string h (JObject kvs) = Some (json_to_string h (JObject kvs))"

text \<open>The C string that starts at an address holding the given bytes.\<close>

definition c_string :: "string \<Rightarrow> string" where
  "c_string bs = takeWhile (\<lambda>c. c \<noteq> CHR 0x00) bs"

datatype crash = Segfault

text \<open>
  One of the two assignments \<open>*dat = strdup(json_object_get_string(jobj))\<close>, guarded
  by the lookup of the key. \<open>strdup(NULL)\<close> dereferences NULL.
\<close>

definition manifest_path ::
  "host \<Rightarrow> json_object \<Rightarrow> string \<Rightarrow> string option \<Rightarrow> crash + string option" where
  "manifest_path h app key old =
     (case json_object_object_get_ex app key of
        None \<Rightarrow> Inr old
      | Some j \<Rightarrow>
          (case json_object_get_string h j of
             None \<Rightarrow> Inl Segfault
           | Some s \<Rightarrow> Inr (Some s)))"

text \<open>
  \<open>read_manifest(zip, &dat, &bin)\<close>: the return value with the final \<open>*dat\<close> and
  \<open>*bin\<close>, whose initial values are the arguments.
\<close>

definition read_manifest ::
  "host \<Rightarrow> zip_t \<Rightarrow> string option \<Rightarrow> string option
     \<Rightarrow> crash + (int \<times> string option \<times> string option)" where
  "read_manifest h z dat bin =
     (case zip_fopen z ''manifest.json'' of
        None \<Rightarrow> Inr (- 1, dat, bin)
      | Some zf \<Rightarrow>
          (let (len, buf) = zip_fread zf 200 in
           if len \<le> 0 then Inr (- 1, dat, bin)
           else
             (let json = json_tokener_parse h (c_string (buf @ stack_residue h)) in
              if json = JNull then Inr (- 1, dat, bin)
              else
                (case (case json_object_object_get_ex json ''manifest'' of
                         None \<Rightarrow> Inr (dat, bin)
                       | Some jobj \<Rightarrow>
                           (case json_object_object_get_ex jobj ''application'' of
                              None \<Rightarrow> Inr (dat, bin)
                            | Some jobj2 \<Rightarrow>
                                (case manifest_path h jobj2 ''dat_file'' dat of
                                   Inl c \<Rightarrow> Inl c
                                 | Inr dat' \<Rightarrow>
                                     (case manifest_path h jobj2 ''bin_file'' bin of
                                        Inl c \<Rightarrow> Inl c
                                      | Inr bin' \<Rightarrow> Inr (dat', bin'))))) of
                   Inl c \<Rightarrow> Inl c
                 | Inr (dat', bin') \<Rightarrow>
                     if dat' = None \<or> bin' = None then Inr (- 1, dat', bin')
                     else Inr (0, dat', bin')))))"

section \<open>Driver: \<open>main\<close>\<close>

definition EXIT_SUCCESS :: int where "EXIT_SUCCESS = 0"
definition EXIT_FAILURE :: int where "EXIT_FAILURE = 1"

text \<open>
  The calls \<open>main\<close> makes into the DFU protocol layer, and its pauses, in the order it
  makes them. \<open>ObjectWrite t zf size\<close> is \<open>dfu_object_write_procedure(t, zf, size)\<close>.
  The results of the calls after the Ping are not looked at by \<open>main\<close>.
\<close>

datatype dfu_call =
    Ping
  | Sleep nat
  | SetPRN nat
  | GetSerialMtu
  | ObjectWrite nat zip_file_t nat

text \<open>
  \<open>do { ret = dfu_ping(); if (!ret) sleep(1); } while (!ret);\<close> from the i-th call of
  \<open>dfu_ping\<close> on. The loop has no bound: where it does not end, the value is \<open>None\<close>.
\<close>

partial_function (option) ping_loop ::
  "(nat \<Rightarrow> bool) \<Rightarrow> nat \<Rightarrow> dfu_call list \<Rightarrow> dfu_call list option" where
  "ping_loop pings i tr =
     (if pings i then Some (tr @ [Ping])
      else ping_loop pings (Suc i) (tr @ [Ping, Sleep 1]))"

datatype result = Returned int | Crashed

text \<open>
  \<open>main\<close> after the command line is parsed, up to and including \<open>serial_init\<close>:
  either the early exit through \<open>goto exit\<close> with the value of \<open>ret\<close> at that
  point, or the two open members with their sizes (\<open>zf1\<close>, \<open>zs1\<close>, \<open>zf2\<close>,
  \<open>zs2\<close>). \<open>ret\<close> starts as \<open>EXIT_FAILURE\<close> and is overwritten by the result of
  \<open>read_manifest\<close>.
\<close>

definition main_open :: "host \<Rightarrow> result + (zip_file_t \<times> nat \<times> zip_file_t \<times> nat)" where
  "main_open h =
     (case zip_open h of
        None \<Rightarrow> Inl (Returned EXIT_FAILURE)
      | Some z \<Rightarrow>
          (case read_manifest h z None None of
             Inl c \<Rightarrow> Inl Crashed
           | Inr (ret, dat, bin) \<Rightarrow>
               if ret < 0 then Inl (Returned ret)
               else
                 (case (dat, bin) of
                    (Some d, Some b) \<Rightarrow>
                      (case (zip_file_open z d, zip_file_open z b) of
                         (Some (zf1, zs1), Some (zf2, zs2)) \<Rightarrow>
                           if serial_init h \<le> 0 then Inl (Returned ret)
                           else Inr (zf1, zs1, zf2, zs2)
                       | _ \<Rightarrow> Inl (Returned ret))
                  | _ \<Rightarrow> Inl (Returned ret))))"

text \<open>
  \<open>main\<close>: what it returns and the calls it made; \<open>None\<close> where it never returns.
  The cleanup after the label \<open>exit\<close> (\<open>free\<close>, \<open>zip_fclose\<close>,
  \<open>zip_close\<close>, \<open>serial_fini\<close>) makes no DFU call and is left out.
\<close>

definition main :: "host \<Rightarrow> (result \<times> dfu_call list) option" where
  "main h =
     (case main_open h of
        Inl r \<Rightarrow> Some (r, [])
      | Inr (zf1, zs1, zf2, zs2) \<Rightarrow>
          (case ping_loop (dfu_ping h) 0 [] of
             None \<Rightarrow> None
           | Some tr \<Rightarrow>
               Some (Returned EXIT_SUCCESS,
                     tr @ [SetPRN 0, GetSerialMtu,
                           ObjectWrite 1 zf1 zs1,
                           ObjectWrite 2 zf2 zs2])))"

text \<open>The exit status the parent process sees: the low 8 bits of what \<open>main\<close> returns.\<close>

definition exit_status :: "int \<Rightarrow> int" where
  "exit_status ret = ret mod 256"

section \<open>BLE transport\<close>

type_synonym byte = "8 word"

text \<open>
  The remote device as blzlib presents it: services by UUID, characteristics by UUID, and
  for each characteristic whether a write, the start of indications and the start of
  notifications succeed on it.
\<close>

record blz_char =
  c_uuid :: string
  c_write_ok :: bool
  c_indicate_ok :: bool
  c_notify_ok :: bool

type_synonym blz_serv = "(string \<times> blz_char) list"
type_synonym blz_dev = "(string \<times> blz_serv) list"

definition blz_get_serv_from_uuid :: "blz_dev \<Rightarrow> string \<Rightarrow> blz_serv option" where
  "blz_get_serv_from_uuid d uuid = map_of d uuid"

definition blz_get_char_from_uuid :: "blz_serv \<Rightarrow> string \<Rightarrow> blz_char option" where
  "blz_get_char_from_uuid srv uuid = map_of srv uuid"

definition DFU_SERVICE_UUID :: string where
  "DFU_SERVICE_UUID = ''0000fe59-0000-1000-8000-00805f9b34fb''"
definition DFU_CONTROL_UUID :: string where
  "DFU_CONTROL_UUID = ''8EC90001-F315-4F60-9FB8-838830DAEA50''"
definition DFU_DATA_UUID :: string where
  "DFU_DATA_UUID = ''8EC90002-F315-4F60-9FB8-838830DAEA50''"
definition DFU_BUTTONLESS_UUID :: string where
  "DFU_BUTTONLESS_UUID = ''8EC90003-F315-4F60-9FB8-838830DAEA50''"
definition CONNECT_MAX_TRY :: nat where
  "CONNECT_MAX_TRY = 3"

text \<open>
  The radio side of blzlib. \<open>blz_init\<close> tells whether the interface initialises;
  \<open>blz_connect k address atype\<close> is the result of the call of \<open>blz_connect\<close> that
  follows \<open>k\<close> earlier ones (\<open>None\<close> is NULL); the address type is the integer of
  \<open>enum BLE_ATYPE\<close>; the two MAC conversions are blzlib's, on the 6-byte array it
  uses; \<open>indications\<close> are the indications of the buttonless characteristic that
  arrive while the program waits for them, each with its arrival time in microseconds
  after the wait began.
\<close>

record radio =
  blz_init :: "string \<Rightarrow> bool"
  blz_connect :: "nat \<Rightarrow> string \<Rightarrow> nat \<Rightarrow> blz_dev option"
  blz_string_to_mac_s :: "string \<Rightarrow> byte list"
  blz_mac_to_string_s :: "byte list \<Rightarrow> string"
  indications :: "(nat \<times> byte list) list"

text \<open>The calls into blzlib and the pauses, in the order the program makes them.\<close>

datatype ble_call =
    BlzInit string
  | BlzConnect string nat
  | SleepSec nat
  | GetServ string
  | GetChar string
  | IndicateStart string
  | NotifyStart string
  | CharWrite string "byte list"
  | LoopTimeout nat
  | Disconnect

text \<open>
  The file-scope variables of the transport, with the number of \<open>blz_connect\<close> calls
  made so far, the calls made and the messages of \<open>LOG_ERR\<close> (format strings only;
  \<open>LOG_NOTI\<close> is output only and is left out).
\<close>

record ble_state =
  buttonless_noti :: bool
  control_noti :: bool
  ctx :: "string option"
  dev :: "blz_dev option"
  cp :: "blz_char option"
  dp :: "blz_char option"
  recv_buf :: "byte list"
  connects :: nat
  calls :: "ble_call list"
  errors :: "string list"

definition ble_initial :: ble_state where
  "ble_initial =
     \<lparr>buttonless_noti = False, control_noti = False, ctx = None, dev = None,
      cp = None, dp = None, recv_buf = replicate 200 0, connects = 0,
      calls = [], errors = []\<rparr>"

definition call :: "ble_call \<Rightarrow> ble_state \<Rightarrow> ble_state" where
  "call c s = s\<lparr>calls := calls s @ [c]\<rparr>"

definition LOG_ERR :: "string \<Rightarrow> ble_state \<Rightarrow> ble_state" where
  "LOG_ERR msg s = s\<lparr>errors := errors s @ [msg]\<rparr>"

text \<open>
  \<open>buttonless_notify_handler\<close>. It reads \<open>data[2]\<close> whatever \<open>len\<close> is: on a
  notification shorter than three bytes the read is out of bounds (\<open>None\<close>).
\<close>

definition buttonless_notify_handler :: "byte list \<Rightarrow> ble_state \<Rightarrow> ble_state option" where
  "buttonless_notify_handler data s =
     (if length data \<le> 2 then None
      else
        Some ((if data ! 2 \<noteq> 0x01 then LOG_ERR ''Unexpected response (%zd) %x %x %x'' s else s)
              \<lparr>buttonless_noti := True\<rparr>))"

text \<open>
  \<open>control_notify_handler\<close>: \<open>memcpy(recv_buf, data, len)\<close> into the 200-byte buffer
  (\<open>None\<close> where it would write past its end), then the flag. The dump of the
  bytes at debug level is output only and is left out.
\<close>

definition control_notify_handler :: "byte list \<Rightarrow> ble_state \<Rightarrow> ble_state option" where
  "control_notify_handler data s =
     (if length (recv_buf s) < length data then None
      else
        Some (s\<lparr>recv_buf := data @ drop (length data) (recv_buf s),
                control_noti := True\<rparr>))"

text \<open>
  \<open>blz_loop_timeout(ctx, &flag, timeout)\<close>, blzlib's event loop, by its contract: it
  hands the notifications that arrive to the registered handler, in order, until the flag
  is set or the timeout (in microseconds) has passed.
\<close>

fun blz_loop_timeout ::
  "(byte list \<Rightarrow> ble_state \<Rightarrow> ble_state option) \<Rightarrow> (ble_state \<Rightarrow> bool) \<Rightarrow> nat
     \<Rightarrow> (nat \<times> byte list) list \<Rightarrow> ble_state \<Rightarrow> ble_state option" where
  "blz_loop_timeout handler flag timeout [] s = Some s"
| "blz_loop_timeout handler flag timeout ((t, data) # evs) s =
     (if flag s \<or> timeout \<le> t then Some s
      else
        (case handler data s of
           None \<Rightarrow> None
         | Some s' \<Rightarrow> blz_loop_timeout handler flag timeout evs s'))"

text \<open>
  The connection loop of \<open>ble_enter_dfu\<close>:
  \<open>do { dev = blz_connect(...); if (dev == NULL) { LOG_ERR; sleep(5); } }
     while (dev == NULL && ++trynum < CONNECT_MAX_TRY);\<close>
  It gives the final \<open>trynum\<close> and state.
\<close>

function connect_loop ::
  "radio \<Rightarrow> string \<Rightarrow> nat \<Rightarrow> nat \<Rightarrow> ble_state \<Rightarrow> nat \<times> ble_state" where
  "connect_loop r address atype trynum s =
     (let d = blz_connect r (connects s) address atype;
          s1 = call (BlzConnect address atype)
                 (s\<lparr>dev := d, connects := Suc (connects s)\<rparr>);
          s2 = (if d = None
                then call (SleepSec 5) (LOG_ERR ''Could not connect to %s'' s1)
                else s1)
      in if d = None \<and> Suc trynum < CONNECT_MAX_TRY
         then connect_loop r address atype (Suc trynum) s2
         else (if d = None then Suc trynum else trynum, s2))"
  by pat_completeness auto
termination
  by (relation "measure (\<lambda>(r, address, atype, trynum, s). CONNECT_MAX_TRY - trynum)") auto

text \<open>\<open>mac[0]++\<close> on the array of \<open>uint8_t\<close> that \<open>blz_string_to_mac_s\<close> returns.\<close>

definition mac0_increment :: "byte list \<Rightarrow> byte list" where
  "mac0_increment mac = (case mac of [] \<Rightarrow> [] | b # bs \<Rightarrow> (b + 1) # bs)"

text \<open>
  From the label \<open>dfutarg_found\<close> on: start notifications on the control point.
  \<open>cp\<close> is not NULL on any path to the label.
\<close>

definition dfutarg_found :: "ble_state \<Rightarrow> (bool \<times> ble_state) option" where
  "dfutarg_found s =
     (case cp s of
        None \<Rightarrow> None
      | Some c \<Rightarrow>
          (let s1 = call (NotifyStart (c_uuid c)) s in
           if \<not> c_notify_ok c
           then Some (False, LOG_ERR ''Could not start CP notification'' s1)
           else Some (True, s1)))"

text \<open>
  The buttonless path of \<open>ble_enter_dfu\<close>, from \<open>blz_char_indicate_start\<close> to the
  label: subscribe, write \<open>0x01\<close>, run the event loop, disconnect, connect to the
  address with \<open>mac[0]\<close> incremented, look up the service and the two characteristics.
  The result of \<open>blz_loop_timeout\<close> and the flag are not looked at after the wait.
\<close>

definition enter_buttonless ::
  "radio \<Rightarrow> string \<Rightarrow> nat \<Rightarrow> blz_char \<Rightarrow> ble_state \<Rightarrow> (bool \<times> ble_state) option" where
  "enter_buttonless r address atype bch s =
     (let s1 = call (IndicateStart (c_uuid bch)) s in
      if \<not> c_indicate_ok bch
      then Some (False, LOG_ERR ''Could not start buttonless notification'' s1)
      else
        (let s2 = call (CharWrite (c_uuid bch) [0x01]) s1 in
         if \<not> c_write_ok bch
         then Some (False, LOG_ERR ''Could not write buttonless'' s2)
         else
           (case blz_loop_timeout buttonless_notify_handler buttonless_noti 10000000
                   (indications r) (call (LoopTimeout 10000000) s2) of
              None \<Rightarrow> None
            | Some s3 \<Rightarrow>
                (let s4 = call Disconnect s3;
                     macs = blz_mac_to_string_s r
                              (mac0_increment (blz_string_to_mac_s r address));
                     d = blz_connect r (connects s4) macs atype;
                     s5 = call (BlzConnect macs atype)
                            (s4\<lparr>dev := d, connects := Suc (connects s4)\<rparr>)
                 in case d of
                      None \<Rightarrow> Some (False, LOG_ERR ''Could not connect DfuTarg'' s5)
                    | Some dv \<Rightarrow>
                        (let s6 = call (GetServ DFU_SERVICE_UUID) s5 in
                         case blz_get_serv_from_uuid dv DFU_SERVICE_UUID of
                           None \<Rightarrow> Some (False, LOG_ERR ''DFU Service not found'' s6)
                         | Some srv \<Rightarrow>
                             (let s7 = call (GetChar DFU_CONTROL_UUID)
                                         (call (GetChar DFU_DATA_UUID) s6)
                                       \<lparr>dp := blz_get_char_from_uuid srv DFU_DATA_UUID,
                                        cp := blz_get_char_from_uuid srv DFU_CONTROL_UUID\<rparr>
                              in if dp s7 = None \<or> cp s7 = None
                                 then Some (False,
                                            (LOG_ERR ''Could not find DFU UUIDs'' s7)
                                            \<lparr>dp := None, cp := None\<rparr>)
                                 else dfutarg_found s7))))))"

text \<open>
  \<open>ble_enter_dfu(interface, address, atype)\<close>: what it returns and the state it
  leaves. \<open>None\<close> stands for undefined behaviour of the C program (an out-of-bounds
  read in a handler).
\<close>

definition ble_enter_dfu ::
  "radio \<Rightarrow> string \<Rightarrow> string \<Rightarrow> nat \<Rightarrow> ble_state \<Rightarrow> (bool \<times> ble_state) option" where
  "ble_enter_dfu r interface address atype s =
     (let s1 = call (BlzInit interface)
                 (s\<lparr>ctx := (if blz_init r interface then Some interface else None)\<rparr>)
      in if ctx s1 = None
         then Some (False, LOG_ERR (''Could not initialize BLE interface '' @ [CHR 0x27] @ ''%s'' @ [CHR 0x27]) s1)
         else
           (let (trynum, s2) = connect_loop r address atype 0 s1 in
            if CONNECT_MAX_TRY \<le> trynum
            then Some (False, LOG_ERR ''Gave up connecting to %s'' s2)
            else
              (case dev s2 of
                 None \<Rightarrow> None
               | Some dv \<Rightarrow>
                   (let s3 = call (GetServ DFU_SERVICE_UUID) s2 in
                    case blz_get_serv_from_uuid dv DFU_SERVICE_UUID of
                      None \<Rightarrow> Some (False, LOG_ERR ''DFU Service not found'' s3)
                    | Some srv \<Rightarrow>
                        (let s4 = call (GetChar DFU_BUTTONLESS_UUID) s3 in
                         case blz_get_char_from_uuid srv DFU_BUTTONLESS_UUID of
                           None \<Rightarrow>
                             (let s5 = call (GetChar DFU_CONTROL_UUID)
                                         (call (GetChar DFU_DATA_UUID)
                                            (LOG_ERR ''Could not find buttonless DFU UUID'' s4))
                                       \<lparr>dp := blz_get_char_from_uuid srv DFU_DATA_UUID,
                                        cp := blz_get_char_from_uuid srv DFU_CONTROL_UUID\<rparr>
                              in if dp s5 \<noteq> None \<and> cp s5 \<noteq> None
                                 then dfutarg_found s5
                                 else Some (False, s5))
                         | Some bch \<Rightarrow> enter_buttonless r address atype bch s4)))))"

text \<open>
  \<open>ble_read\<close>, given the notifications of the control point that arrive while it
  waits: the pointer it returns (\<open>None\<close> is NULL, otherwise the contents of
  \<open>recv_buf\<close>) and the state.
\<close>

definition ble_read ::
  "(nat \<times> byte list) list \<Rightarrow> ble_state \<Rightarrow> (byte list option \<times> ble_state) option" where
  "ble_read incoming s =
     (case blz_loop_timeout control_notify_handler control_noti 10000000 incoming
             (call (LoopTimeout 10000000) (s\<lparr>control_noti := False\<rparr>)) of
        None \<Rightarrow> None
      | Some s1 \<Rightarrow>
          if control_noti s1 = False
          then Some (None, LOG_ERR ''BLE waiting for notification failed'' s1)
          else Some (Some (recv_buf s1), s1))"

section \<open>Observations and reference inputs\<close>

text \<open>
  \<open>failed_pings n\<close> is what \<open>n\<close> failed probes leave in the call sequence: each a
  Ping followed by the sleep of one second.
\<close>

fun failed_pings :: "nat \<Rightarrow> dfu_call list" where
  "failed_pings 0 = []"
| "failed_pings (Suc n) = Ping # Sleep 1 # failed_pings n"

definition pings_sent :: "dfu_call list \<Rightarrow> nat" where
  "pings_sent tr = length (filter (\<lambda>c. c = Ping) tr)"

fun is_object_write :: "dfu_call \<Rightarrow> bool" where
  "is_object_write (ObjectWrite t zf n) = True"
| "is_object_write _ = False"

definition object_writes :: "dfu_call list \<Rightarrow> dfu_call list" where
  "object_writes tr = filter is_object_write tr"

text \<open>
  A package for the examples. Its manifest is the document below;
  \<open>manifest_only_parse\<close> stands for \<open>json_tokener_parse\<close> on the texts the examples
  give it: that document with JSON whitespace around it parses to \<open>manifest_json\<close>,
  and a text that ends inside the document does not parse.
\<close>

definition manifest_text :: string where
  \<open>manifest_text = ''{"manifest":{"application":{"bin_file":"app.bin","dat_file":"app.dat"}}}''\<close>

definition manifest_json :: json_object where
  "manifest_json =
     JObject [(''manifest'',
       JObject [(''application'',
         JObject [(''bin_file'', JString ''app.bin''), (''dat_file'', JString ''app.dat'')])])]"

definition json_ws :: "char \<Rightarrow> bool" where
  "json_ws c = (c = CHR 0x20 \<or> c = CHR 0x09 \<or> c = CHR 0x0A \<or> c = CHR 0x0D)"

definition manifest_only_parse :: "string \<Rightarrow> json_object" where
  "manifest_only_parse s =
     (if rev (dropWhile json_ws (rev (dropWhile json_ws s))) = manifest_text
      then manifest_json else JNull)"

definition member :: "string \<Rightarrow> zip_member" where
  "member bs = \<lparr>m_data = bs, m_opens = True, m_read_error = False\<rparr>"

definition demo_zip :: "string \<Rightarrow> zip_t" where
  "demo_zip init =
     [''manifest.json'' \<mapsto> member manifest_text,
      ''app.dat'' \<mapsto> member init,
      ''app.bin'' \<mapsto> member ''firmware'']"

definition demo_host :: "zip_t \<Rightarrow> (nat \<Rightarrow> bool) \<Rightarrow> host" where
  "demo_host z pings =
     \<lparr>zip_open = Some z, json_tokener_parse = manifest_only_parse,
      json_to_string = (\<lambda>j. []), stack_residue = [], serial_init = 3,
      dfu_ping = pings\<rparr>"

definition manifest_zip :: "string \<Rightarrow> zip_t" where
  "manifest_zip text =
     [''manifest.json'' \<mapsto> member text,
      ''app.dat'' \<mapsto> member ''init'',
      ''app.bin'' \<mapsto> member ''firmware'']"

definition padded_manifest :: "nat \<Rightarrow> string" where
  "padded_manifest n = manifest_text @ replicate n (CHR 0x20)"

definition indented_manifest :: string where
  "indented_manifest = replicate 150 (CHR 0x20) @ manifest_text"

definition no_init_zip :: zip_t where
  "no_init_zip =
     [''manifest.json'' \<mapsto> member manifest_text,
      ''app.bin'' \<mapsto> member ''firmware'']"

definition padded_host :: host where
  "padded_host = demo_host (manifest_zip (padded_manifest 200)) (\<lambda>i. True)"

definition empty_init_host :: host where
  "empty_init_host = demo_host (demo_zip []) (\<lambda>i. True)"

definition no_init_host :: host where
  "no_init_host = demo_host no_init_zip (\<lambda>i. True)"

definition late_host :: host where
  "late_host = demo_host (demo_zip ''init'') (\<lambda>i. 3 \<le> i)"

definition silent_host :: host where
  "silent_host = demo_host (demo_zip ''init'') (\<lambda>i. False)"

text \<open>
  \<open>failed_connects n\<close> is what \<open>n\<close> failed connection attempts leave in the call
  sequence; \<open>touches_characteristic\<close> tells the calls that look up or use a
  characteristic.
\<close>

fun failed_connects :: "nat \<Rightarrow> string \<Rightarrow> nat \<Rightarrow> ble_call list" where
  "failed_connects 0 address atype = []"
| "failed_connects (Suc n) address atype =
     BlzConnect address atype # SleepSec 5 # failed_connects n address atype"

fun touches_characteristic :: "ble_call \<Rightarrow> bool" where
  "touches_characteristic (GetChar u) = True"
| "touches_characteristic (IndicateStart u) = True"
| "touches_characteristic (NotifyStart u) = True"
| "touches_characteristic (CharWrite u bs) = True"
| "touches_characteristic _ = False"

text \<open>
  Devices for the examples: a target already in DFU mode, with the control and data
  characteristics and no buttonless characteristic, whose control point accepts
  notifications or not. The radios answer every connection attempt alike, from the second
  attempt on, or never; no run on them reaches the MAC conversions.
\<close>

definition plain_char :: "string \<Rightarrow> bool \<Rightarrow> blz_char" where
  "plain_char uuid notify =
     \<lparr>c_uuid = uuid, c_write_ok = True, c_indicate_ok = False, c_notify_ok = notify\<rparr>"

definition dfutarg_dev :: "bool \<Rightarrow> blz_dev" where
  "dfutarg_dev notify =
     [(DFU_SERVICE_UUID,
       [(DFU_CONTROL_UUID, plain_char DFU_CONTROL_UUID notify),
        (DFU_DATA_UUID, plain_char DFU_DATA_UUID False)])]"

definition demo_radio :: "(nat \<Rightarrow> blz_dev option) \<Rightarrow> radio" where
  "demo_radio answers =
     \<lparr>blz_init = (\<lambda>interface. True),
      blz_connect = (\<lambda>k address atype. answers k),
      blz_string_to_mac_s = (\<lambda>address. []),
      blz_mac_to_string_s = (\<lambda>mac. []),
      indications = []\<rparr>"

definition deaf_radio :: radio where
  "deaf_radio = demo_radio (\<lambda>k. Some (dfutarg_dev False))"

definition second_try_radio :: radio where
  "second_try_radio = demo_radio (\<lambda>k. if k = 0 then None else Some (dfutarg_dev True))"

definition absent_radio :: radio where
  "absent_radio = demo_radio (\<lambda>k. None)"

definition returned :: "(bool \<times> ble_state) option \<Rightarrow> bool option" where
  "returned res = map_option fst res"

definition calls_made :: "(bool \<times> ble_state) option \<Rightarrow> ble_call list option" where
  "calls_made res = map_option (\<lambda>p. calls (snd p)) res"

definition read_result :: "(byte list option \<times> ble_state) option \<Rightarrow> byte list option option" where
  "read_result res = map_option fst res"

text \<open>
  A device in application mode, with the buttonless characteristic, for the example of
  the buttonless path. The addresses of the example are names: blzlib reads
  \<open>''app''\<close> as the array 1, 2, 3, 4, 5, 6 and prints the array
  2, 2, 3, 4, 5, 6 as \<open>''dfutarg''\<close>, under which the bootloader answers. One
  indication arrives during the wait, with third byte \<open>0x02\<close>.
\<close>

definition buttonless_char :: blz_char where
  "buttonless_char =
     \<lparr>c_uuid = DFU_BUTTONLESS_UUID, c_write_ok = True, c_indicate_ok = True,
      c_notify_ok = False\<rparr>"

definition app_dev :: blz_dev where
  "app_dev = [(DFU_SERVICE_UUID, [(DFU_BUTTONLESS_UUID, buttonless_char)])]"

definition buttonless_radio :: radio where
  "buttonless_radio =
     \<lparr>blz_init = (\<lambda>interface. True),
      blz_connect = (\<lambda>k address atype.
        if address = ''app'' then Some app_dev
        else if address = ''dfutarg'' then Some (dfutarg_dev True)
        else None),
      blz_string_to_mac_s = (\<lambda>address. [1, 2, 3, 4, 5, 6]),
      blz_mac_to_string_s =
        (\<lambda>mac. if mac = [2, 2, 3, 4, 5, 6] then ''dfutarg'' else ''other''),
      indications = [(1000, [0x20, 0x01, 0x02])]\<rparr>"

section \<open>The Ping loop\<close>

lemma failed_pings_snoc: "failed_pings n @ [Ping, Sleep 1] = failed_pings (Suc n)"
  by (induction n) auto

lemma ping_loop_first_success:
  "pings (i + n) \<Longrightarrow> (\<forall>k<n. \<not> pings (i + k)) \<Longrightarrow>
     ping_loop pings i tr = Some (tr @ failed_pings n @ [Ping])"
proof (induction n arbitrary: i tr)
  case 0
  then show ?case by (subst ping_loop.simps) simp
next
  case (Suc n)
  have no: "\<not> pings i" using Suc.prems(2) by force
  have a: "pings (Suc i + n)" using Suc.prems(1) by simp
  have b: "\<forall>k<n. \<not> pings (Suc i + k)"
  proof (intro allI impI)
    fix k assume "k < n"
    then have "Suc k < Suc n" by simp
    with Suc.prems(2) have "\<not> pings (i + Suc k)" by blast
    then show "\<not> pings (Suc i + k)" by simp
  qed
  have "ping_loop pings i tr = ping_loop pings (Suc i) (tr @ [Ping, Sleep 1])"
    using no by (subst ping_loop.simps) simp
  also have "\<dots> = Some ((tr @ [Ping, Sleep 1]) @ failed_pings n @ [Ping])"
    by (rule Suc.IH [OF a b])
  finally show ?case by simp
qed

lemma ping_loop_Some:
  "ping_loop pings i tr = Some t \<Longrightarrow>
     \<exists>n. pings (i + n) \<and> (\<forall>k<n. \<not> pings (i + k)) \<and> t = tr @ failed_pings n @ [Ping]"
proof (rule ping_loop.raw_induct
    [where P = "\<lambda>pings i tr t. \<exists>n. pings (i + n) \<and> (\<forall>k<n. \<not> pings (i + k))
                                    \<and> t = tr @ failed_pings n @ [Ping]"])
  show "ping_loop pings i tr = Some t \<Longrightarrow> ping_loop pings i tr = Some t" by assumption
next
  fix f :: "(nat \<Rightarrow> bool) \<Rightarrow> nat \<Rightarrow> dfu_call list \<Rightarrow> dfu_call list option"
  fix pings i tr t
  assume IH: "\<And>pings i tr t. f pings i tr = Some t \<Longrightarrow>
     \<exists>n. pings (i + n) \<and> (\<forall>k<n. \<not> pings (i + k)) \<and> t = tr @ failed_pings n @ [Ping]"
  assume step: "(if pings i then Some (tr @ [Ping]) else f pings (Suc i) (tr @ [Ping, Sleep 1])) = Some t"
  show "\<exists>n. pings (i + n) \<and> (\<forall>k<n. \<not> pings (i + k)) \<and> t = tr @ failed_pings n @ [Ping]"
  proof (cases "pings i")
    case True
    with step have "t = tr @ failed_pings 0 @ [Ping]" by simp
    with True show ?thesis by (intro exI [of _ 0]) simp
  next
    case False
    with step have "f pings (Suc i) (tr @ [Ping, Sleep 1]) = Some t" by simp
    from IH [OF this] obtain n where n: "pings (Suc i + n)" "\<forall>k<n. \<not> pings (Suc i + k)"
      "t = (tr @ [Ping, Sleep 1]) @ failed_pings n @ [Ping]" by blast
    have "\<forall>k<Suc n. \<not> pings (i + k)"
    proof (intro allI impI)
      fix k assume k: "k < Suc n"
      show "\<not> pings (i + k)"
      proof (cases k)
        case 0 with False show ?thesis by simp
      next
        case (Suc j)
        with k have "j < n" by simp
        with n(2) have "\<not> pings (Suc i + j)" by blast
        with Suc show ?thesis by simp
      qed
    qed
    moreover have "pings (i + Suc n)" using n(1) by simp
    moreover have "t = tr @ failed_pings (Suc n) @ [Ping]" using n(3) by simp
    ultimately show ?thesis by blast
  qed
qed

lemma ping_loop_never: "(\<forall>k. \<not> pings k) \<Longrightarrow> ping_loop pings i tr = None"
  using ping_loop_Some [of pings i tr] by (cases "ping_loop pings i tr") auto

lemma pings_sent_failed: "pings_sent (failed_pings n @ tr) = n + pings_sent tr"
  by (induction n) (auto simp: pings_sent_def)

lemma object_writes_failed: "object_writes (failed_pings n @ tr) = object_writes tr"
  by (induction n) (auto simp: object_writes_def)

section \<open>The reference package\<close>

lemma manifest_only_parse_text: "manifest_only_parse manifest_text = manifest_json"
  by (simp add: manifest_only_parse_def manifest_text_def json_ws_def)

lemma c_string_manifest_text: "c_string manifest_text = manifest_text"
  by (simp add: c_string_def manifest_text_def)

lemma read_manifest_found:
  "zip_fopen z ''manifest.json'' = Some zf \<Longrightarrow> zip_fread zf 200 = (len, buf) \<Longrightarrow> 0 < len \<Longrightarrow>
   json_tokener_parse h (c_string (buf @ stack_residue h)) = manifest_json \<Longrightarrow>
   read_manifest h z None None = Inr (0, Some ''app.dat'', Some ''app.bin'')"
  by (simp add: read_manifest_def manifest_json_def manifest_path_def)

lemma read_manifest_demo:
  "read_manifest (demo_host z' k) (demo_zip init) None None
     = Inr (0, Some ''app.dat'', Some ''app.bin'')"
proof (rule read_manifest_found)
  show "zip_fopen (demo_zip init) ''manifest.json'' = Some (''manifest.json'', member manifest_text)"
    by (simp add: zip_fopen_def demo_zip_def member_def)
  show "zip_fread (''manifest.json'', member manifest_text) 200 = (72, manifest_text)"
    by (simp add: zip_fread_def member_def manifest_text_def)
  show "(0::int) < 72" by simp
  show "json_tokener_parse (demo_host z' k) (c_string (manifest_text @ stack_residue (demo_host z' k)))
          = manifest_json"
    by (simp add: demo_host_def c_string_manifest_text manifest_only_parse_text)
qed

lemma demo_host_sel:
  "zip_open (demo_host z k) = Some z"
  "serial_init (demo_host z k) = 3"
  "dfu_ping (demo_host z k) = k"
  by (simp_all add: demo_host_def)

lemma zip_file_open_demo:
  "zip_file_open (demo_zip init) ''app.dat'' = Some ((''app.dat'', member init), length init)"
  "zip_file_open (demo_zip init) ''app.bin'' = Some ((''app.bin'', member ''firmware''), 8)"
  by (simp_all add: demo_zip_def zip_file_open_def member_def)

lemma main_open_demo:
  "main_open (demo_host (demo_zip init) k)
     = Inr ((''app.dat'', member init), length init, (''app.bin'', member ''firmware''), 8)"
  by (simp add: main_open_def demo_host_sel read_manifest_demo zip_file_open_demo)

lemma main_open_silent:
  "main_open silent_host
     = Inr ((''app.dat'', member ''init''), 4, (''app.bin'', member ''firmware''), 8)"
  by (simp add: silent_host_def main_open_demo)

lemma main_late_host:
  "main late_host
     = Some (Returned EXIT_SUCCESS,
             [Ping, Sleep 1, Ping, Sleep 1, Ping, Sleep 1, Ping, SetPRN 0, GetSerialMtu,
              ObjectWrite 1 (''app.dat'', member ''init'') 4,
              ObjectWrite 2 (''app.bin'', member ''firmware'') 8])"
  by (simp add: main_def late_host_def main_open_demo demo_host_sel ping_loop.simps)

section \<open>Probing and the order of the upgrade\<close>

lemma main_advances:
  assumes "main_open h = Inr (zf1, zs1, zf2, zs2)"
    and "dfu_ping h n" and "\<forall>k<n. \<not> dfu_ping h k"
  shows "main h = Some (Returned EXIT_SUCCESS,
           failed_pings n @ [Ping, SetPRN 0, GetSerialMtu,
                             ObjectWrite 1 zf1 zs1, ObjectWrite 2 zf2 zs2])"
proof -
  have "ping_loop (dfu_ping h) 0 [] = Some ([] @ failed_pings n @ [Ping])"
    by (rule ping_loop_first_success) (use assms in simp_all)
  with assms(1) show ?thesis by (simp add: main_def)
qed

lemma main_hangs:
  assumes "main_open h = Inr (zf1, zs1, zf2, zs2)" and "\<forall>k. \<not> dfu_ping h k"
  shows "main h = None"
  using assms by (simp add: main_def ping_loop_never)

text \<open>
  C1, as the code has it. Once \<open>main\<close> has opened the package and the serial port,
  it sends Ping until one succeeds, sleeping one second after each failure, with no bound
  on the number of attempts: if the first success is the call after \<open>n\<close> failures,
  for any \<open>n\<close>, then \<open>n + 1\<close> Pings are sent, that one success advances to
  SetPRN, the MTU query and the two object writes, and \<open>main\<close> returns
  \<open>EXIT_SUCCESS\<close>; if no call ever succeeds, \<open>main\<close> does not return.
\<close>

theorem probe_until_ping_succeeds:
  assumes "main_open h = Inr (zf1, zs1, zf2, zs2)"
  shows "(dfu_ping h n \<and> (\<forall>k<n. \<not> dfu_ping h k) \<longrightarrow>
            main h = Some (Returned EXIT_SUCCESS,
                           failed_pings n @ [Ping, SetPRN 0, GetSerialMtu,
                                             ObjectWrite 1 zf1 zs1, ObjectWrite 2 zf2 zs2])
            \<and> pings_sent (failed_pings n @ [Ping, SetPRN 0, GetSerialMtu,
                                             ObjectWrite 1 zf1 zs1, ObjectWrite 2 zf2 zs2]) = Suc n)
       \<and> ((\<forall>k. \<not> dfu_ping h k) \<longrightarrow> main h = None)"
  using main_advances [OF assms] main_hangs [OF assms]
  by (simp add: pings_sent_failed) (simp add: pings_sent_def)

text \<open>
  C1 as stated (at most 3 Pings, then failure) does not hold: a bootloader that answers
  the fourth Ping is sent four Pings, and the run succeeds.
\<close>

theorem fourth_ping_counterexample:
  "main late_host
     = Some (Returned EXIT_SUCCESS,
             [Ping, Sleep 1, Ping, Sleep 1, Ping, Sleep 1, Ping, SetPRN 0, GetSerialMtu,
              ObjectWrite 1 (''app.dat'', member ''init'') 4,
              ObjectWrite 2 (''app.bin'', member ''firmware'') 8])
   \<and> pings_sent [Ping, Sleep 1, Ping, Sleep 1, Ping, Sleep 1, Ping, SetPRN 0, GetSerialMtu,
              ObjectWrite 1 (''app.dat'', member ''init'') 4,
              ObjectWrite 2 (''app.bin'', member ''firmware'') 8] = 4"
  by (simp add: main_def late_host_def main_open_demo demo_host_sel ping_loop.simps
      pings_sent_def)

theorem probe_until_ping_succeeds_witness:
  "main_open late_host
     = Inr ((''app.dat'', member ''init''), 4, (''app.bin'', member ''firmware''), 8)
   \<and> dfu_ping late_host 3
   \<and> \<not> dfu_ping late_host 0 \<and> \<not> dfu_ping late_host 1 \<and> \<not> dfu_ping late_host 2
   \<and> main late_host
       = Some (Returned EXIT_SUCCESS,
               failed_pings 3 @ [Ping, SetPRN 0, GetSerialMtu,
                 ObjectWrite 1 (''app.dat'', member ''init'') 4,
                 ObjectWrite 2 (''app.bin'', member ''firmware'') 8])
   \<and> main_open silent_host
     = Inr ((''app.dat'', member ''init''), 4, (''app.bin'', member ''firmware''), 8)
   \<and> \<not> dfu_ping silent_host 0
   \<and> main silent_host = None"
proof -
  have o: "main_open late_host
     = Inr ((''app.dat'', member ''init''), 4, (''app.bin'', member ''firmware''), 8)"
    by (simp add: late_host_def main_open_demo)
  have p: "dfu_ping late_host 3 \<and> (\<forall>k<3. \<not> dfu_ping late_host k)"
    by (simp add: late_host_def demo_host_sel)
  have q: "\<forall>k. \<not> dfu_ping silent_host k"
    by (simp add: silent_host_def demo_host_sel)
  show ?thesis
    using probe_until_ping_succeeds [OF o, of 3] probe_until_ping_succeeds [OF main_open_silent, of 0]
      o p q main_open_silent
    by simp
qed

lemma read_manifest_ret:
  "read_manifest h z dat bin = Inr (ret, d, b) \<Longrightarrow>
     ret = - 1 \<or> (ret = 0 \<and> d \<noteq> None \<and> b \<noteq> None)"
  by (auto simp: read_manifest_def Let_def
      split: option.splits if_splits sum.splits prod.splits)

lemma main_open_Inr:
  assumes "main_open h = Inr (zf1, zs1, zf2, zs2)"
  shows "\<exists>z d b. zip_open h = Some z
           \<and> read_manifest h z None None = Inr (0, Some d, Some b)
           \<and> zip_file_open z d = Some (zf1, zs1)
           \<and> zip_file_open z b = Some (zf2, zs2)
           \<and> 0 < serial_init h"
proof -
  from assms obtain z where z: "zip_open h = Some z"
    by (auto simp: main_open_def split: option.splits)
  from assms z obtain ret dat bin where rm: "read_manifest h z None None = Inr (ret, dat, bin)"
    by (auto simp: main_open_def split: sum.splits)
  from assms z rm have nn: "\<not> ret < 0"
    by (auto simp: main_open_def split: if_splits)
  with read_manifest_ret [OF rm] have ret: "ret = 0" by auto
  from assms z rm nn obtain d b where db: "dat = Some d" "bin = Some b"
    by (auto simp: main_open_def split: option.splits)
  from assms z rm nn db have
    "zip_file_open z d = Some (zf1, zs1) \<and> zip_file_open z b = Some (zf2, zs2)
       \<and> 0 < serial_init h"
    by (auto simp: main_open_def split: option.splits if_splits)
  with z rm ret db show ?thesis by auto
qed

text \<open>
  C2. Where the archive opens, the manifest names both members, both open, the serial
  port opens and a Ping succeeds after \<open>n\<close> failed ones, \<open>main\<close> issues,
  right after the Ping that succeeded, \<open>SetPRN 0\<close>, then the MTU query, then the
  object write procedure with type 1 on the member named as \<open>dat_file\<close> with its
  size, then the object write procedure with type 2 on the member named as
  \<open>bin_file\<close> with its size, and returns \<open>EXIT_SUCCESS\<close>; these are the
  only two object writes of the run, one for each payload, in this order.
\<close>

theorem upgrade_call_order:
  assumes "zip_open h = Some z"
    and "read_manifest h z None None = Inr (0, Some d, Some b)"
    and "zip_file_open z d = Some (zf1, zs1)"
    and "zip_file_open z b = Some (zf2, zs2)"
    and "0 < serial_init h"
    and "dfu_ping h n" and "\<forall>k<n. \<not> dfu_ping h k"
  shows "main h = Some (Returned EXIT_SUCCESS,
           failed_pings n @ [Ping, SetPRN 0, GetSerialMtu,
                             ObjectWrite 1 zf1 zs1, ObjectWrite 2 zf2 zs2])
       \<and> object_writes (failed_pings n @ [Ping, SetPRN 0, GetSerialMtu,
                             ObjectWrite 1 zf1 zs1, ObjectWrite 2 zf2 zs2])
           = [ObjectWrite 1 zf1 zs1, ObjectWrite 2 zf2 zs2]"
proof -
  from assms(1-5) have "main_open h = Inr (zf1, zs1, zf2, zs2)"
    by (simp add: main_open_def)
  from main_advances [OF this assms(6,7)]
  have "main h = Some (Returned EXIT_SUCCESS,
           failed_pings n @ [Ping, SetPRN 0, GetSerialMtu,
                             ObjectWrite 1 zf1 zs1, ObjectWrite 2 zf2 zs2])" .
  moreover have "object_writes (failed_pings n @ [Ping, SetPRN 0, GetSerialMtu,
                             ObjectWrite 1 zf1 zs1, ObjectWrite 2 zf2 zs2])
           = [ObjectWrite 1 zf1 zs1, ObjectWrite 2 zf2 zs2]"
    unfolding object_writes_failed by (simp add: object_writes_def)
  ultimately show ?thesis by (rule conjI)
qed

theorem upgrade_call_order_witness:
  "zip_open late_host = Some (demo_zip ''init'')
   \<and> read_manifest late_host (demo_zip ''init'') None None
        = Inr (0, Some ''app.dat'', Some ''app.bin'')
   \<and> zip_file_open (demo_zip ''init'') ''app.dat'' = Some ((''app.dat'', member ''init''), 4)
   \<and> zip_file_open (demo_zip ''init'') ''app.bin''
        = Some ((''app.bin'', member ''firmware''), 8)
   \<and> 0 < serial_init late_host
   \<and> dfu_ping late_host 3
   \<and> \<not> dfu_ping late_host 0 \<and> \<not> dfu_ping late_host 1 \<and> \<not> dfu_ping late_host 2
   \<and> main late_host
       = Some (Returned EXIT_SUCCESS,
               [Ping, Sleep 1, Ping, Sleep 1, Ping, Sleep 1, Ping, SetPRN 0, GetSerialMtu,
                ObjectWrite 1 (''app.dat'', member ''init'') 4,
                ObjectWrite 2 (''app.bin'', member ''firmware'') 8])
   \<and> object_writes
         [Ping, Sleep 1, Ping, Sleep 1, Ping, Sleep 1, Ping, SetPRN 0, GetSerialMtu,
          ObjectWrite 1 (''app.dat'', member ''init'') 4,
          ObjectWrite 2 (''app.bin'', member ''firmware'') 8]
       = [ObjectWrite 1 (''app.dat'', member ''init'') 4,
          ObjectWrite 2 (''app.bin'', member ''firmware'') 8]"
proof -
  have a: "zip_open late_host = Some (demo_zip ''init'')"
    by (simp add: late_host_def demo_host_sel)
  have b: "read_manifest late_host (demo_zip ''init'') None None
        = Inr (0, Some ''app.dat'', Some ''app.bin'')"
    by (simp add: late_host_def read_manifest_demo)
  have c: "zip_file_open (demo_zip ''init'') ''app.dat''
             = Some ((''app.dat'', member ''init''), 4)"
    using zip_file_open_demo(1) [of "''init''"] by simp
  have d: "zip_file_open (demo_zip ''init'') ''app.bin''
             = Some ((''app.bin'', member ''firmware''), 8)"
    by (rule zip_file_open_demo)
  have e: "0 < serial_init late_host"
    by (simp add: late_host_def demo_host_sel)
  have f: "dfu_ping late_host 3"
    by (simp add: late_host_def demo_host_sel)
  have g: "\<forall>k<3. \<not> dfu_ping late_host k"
    by (simp add: late_host_def demo_host_sel)
  have p: "failed_pings 3 = [Ping, Sleep 1, Ping, Sleep 1, Ping, Sleep 1]"
    by (simp add: numeral_3_eq_3)
  note T = upgrade_call_order [OF a b c d e f g, unfolded p]
  have m: "main late_host
       = Some (Returned EXIT_SUCCESS,
               [Ping, Sleep 1, Ping, Sleep 1, Ping, Sleep 1, Ping, SetPRN 0, GetSerialMtu,
                ObjectWrite 1 (''app.dat'', member ''init'') 4,
                ObjectWrite 2 (''app.bin'', member ''firmware'') 8])"
    using T [THEN conjunct1] by simp
  have w: "object_writes
         [Ping, Sleep 1, Ping, Sleep 1, Ping, Sleep 1, Ping, SetPRN 0, GetSerialMtu,
          ObjectWrite 1 (''app.dat'', member ''init'') 4,
          ObjectWrite 2 (''app.bin'', member ''firmware'') 8]
       = [ObjectWrite 1 (''app.dat'', member ''init'') 4,
          ObjectWrite 2 (''app.bin'', member ''firmware'') 8]"
    using T [THEN conjunct2] by simp
  have n0: "\<not> dfu_ping late_host 0" and n1: "\<not> dfu_ping late_host 1"
    and n2: "\<not> dfu_ping late_host 2"
    by (simp_all add: late_host_def demo_host_sel)
  show ?thesis
    by (intro conjI) (rule a b c d e f n0 n1 n2 m w)+
qed

section \<open>The package checks\<close>

text \<open>
  C5, as the code has it. A package whose init payload is empty is not rejected: where
  the manifest names both members, both open, the serial port opens and a Ping succeeds,
  \<open>main\<close> calls the object write procedure for type 1 with size 0, after SetPRN and
  the MTU query, then the one for type 2, and returns \<open>EXIT_SUCCESS\<close>.
\<close>

theorem empty_init_not_rejected:
  assumes "zip_open h = Some z"
    and "read_manifest h z None None = Inr (0, Some d, Some b)"
    and "z d = Some m" and "m_data m = []" and "m_opens m"
    and "zip_file_open z b = Some (zf2, zs2)"
    and "0 < serial_init h"
    and "dfu_ping h n" and "\<forall>k<n. \<not> dfu_ping h k"
  shows "main h = Some (Returned EXIT_SUCCESS,
           failed_pings n @ [Ping, SetPRN 0, GetSerialMtu,
                             ObjectWrite 1 (d, m) 0, ObjectWrite 2 zf2 zs2])"
proof -
  have "zip_file_open z d = Some ((d, m), 0)"
    using assms(3-5) by (simp add: zip_file_open_def)
  with assms(1,2,6,7) have "main_open h = Inr ((d, m), 0, zf2, zs2)"
    by (simp add: main_open_def)
  from main_advances [OF this assms(8,9)] show ?thesis .
qed

text \<open>
  C5 as stated (an empty init payload is rejected before any transfer) does not hold on
  the reference package with an empty \<open>app.dat\<close>.
\<close>

theorem empty_init_counterexample:
  "main empty_init_host
     = Some (Returned EXIT_SUCCESS,
             [Ping, SetPRN 0, GetSerialMtu,
              ObjectWrite 1 (''app.dat'', member []) 0,
              ObjectWrite 2 (''app.bin'', member ''firmware'') 8])"
  by (simp add: main_def empty_init_host_def main_open_demo demo_host_sel ping_loop.simps)

theorem empty_init_not_rejected_witness:
  "zip_open empty_init_host = Some (demo_zip [])
   \<and> read_manifest empty_init_host (demo_zip []) None None
        = Inr (0, Some ''app.dat'', Some ''app.bin'')
   \<and> demo_zip [] ''app.dat'' = Some (member [])
   \<and> m_data (member []) = [] \<and> m_opens (member [])
   \<and> zip_file_open (demo_zip []) ''app.bin'' = Some ((''app.bin'', member ''firmware''), 8)
   \<and> 0 < serial_init empty_init_host
   \<and> dfu_ping empty_init_host 0
   \<and> main empty_init_host
       = Some (Returned EXIT_SUCCESS,
               failed_pings 0 @ [Ping, SetPRN 0, GetSerialMtu,
                 ObjectWrite 1 (''app.dat'', member []) 0,
                 ObjectWrite 2 (''app.bin'', member ''firmware'') 8])"
proof -
  have a: "zip_open empty_init_host = Some (demo_zip [])"
    by (simp add: empty_init_host_def demo_host_sel)
  have b: "read_manifest empty_init_host (demo_zip []) None None
        = Inr (0, Some ''app.dat'', Some ''app.bin'')"
    by (simp add: empty_init_host_def read_manifest_demo)
  have c: "demo_zip [] ''app.dat'' = Some (member [])"
    by (simp add: demo_zip_def)
  have d: "m_data (member []) = []" and e: "m_opens (member [])"
    by (simp_all add: member_def)
  have f: "zip_file_open (demo_zip []) ''app.bin'' = Some ((''app.bin'', member ''firmware''), 8)"
    by (rule zip_file_open_demo)
  have g: "0 < serial_init empty_init_host"
    by (simp add: empty_init_host_def demo_host_sel)
  have i: "dfu_ping empty_init_host 0"
    by (simp add: empty_init_host_def demo_host_sel)
  have j: "\<forall>k<0. \<not> dfu_ping empty_init_host k" by simp
  from empty_init_not_rejected [OF a b c d e f g i j] a b c d e f g i
  show ?thesis by simp
qed

text \<open>
  Where \<open>read_manifest\<close> fails, \<open>main\<close> returns -1, exit status 255, without a
  DFU call; it fails where the archive has no manifest.
\<close>

lemma manifest_failure_exit:
  assumes "zip_open h = Some z" and "read_manifest h z None None = Inr (ret, d, b)"
    and "ret < 0"
  shows "main h = Some (Returned (- 1), []) \<and> exit_status (- 1) = 255"
proof -
  from read_manifest_ret [OF assms(2)] assms(3) have "ret = - 1" by auto
  with assms show ?thesis
    by (simp add: main_def main_open_def exit_status_def)
qed

lemma read_manifest_no_manifest:
  "z ''manifest.json'' = None \<Longrightarrow> read_manifest h z dat bin = Inr (- 1, dat, bin)"
  by (simp add: read_manifest_def zip_fopen_def)

text \<open>
  C6. The manifest of this package is valid and names \<open>app.dat\<close> and
  \<open>app.bin\<close>, and the archive has no \<open>app.dat\<close>. \<open>main\<close> makes no DFU
  call, and returns \<open>EXIT_SUCCESS\<close>, exit status 0, where C6 asks for a failure
  exit status: \<open>ret\<close> holds the 0 of \<open>read_manifest\<close> when \<open>goto exit\<close>
  is taken.
\<close>

theorem missing_member_exit_success:
  "main no_init_host = Some (Returned EXIT_SUCCESS, [])
   \<and> exit_status EXIT_SUCCESS = 0"
proof -
  have rm: "read_manifest no_init_host no_init_zip None None
              = Inr (0, Some ''app.dat'', Some ''app.bin'')"
  proof (rule read_manifest_found)
    show "zip_fopen no_init_zip ''manifest.json'' = Some (''manifest.json'', member manifest_text)"
      by (simp add: zip_fopen_def no_init_zip_def member_def)
    show "zip_fread (''manifest.json'', member manifest_text) 200 = (72, manifest_text)"
      by (simp add: zip_fread_def member_def manifest_text_def)
    show "(0::int) < 72" by simp
    show "json_tokener_parse no_init_host (c_string (manifest_text @ stack_residue no_init_host))
            = manifest_json"
      by (simp add: no_init_host_def demo_host_def c_string_manifest_text manifest_only_parse_text)
  qed
  have "zip_file_open no_init_zip ''app.dat'' = None"
    by (simp add: zip_file_open_def no_init_zip_def)
  with rm have "main_open no_init_host = Inl (Returned 0)"
    by (simp add: main_open_def no_init_host_def demo_host_sel)
  then show ?thesis by (simp add: main_def EXIT_SUCCESS_def exit_status_def)
qed

section \<open>The manifest buffer\<close>

lemma dropWhile_replicate_append:
  "P x \<Longrightarrow> dropWhile P (replicate n x @ ys) = dropWhile P ys"
  by (induction n) auto

lemma c_string_no_nul: "CHR 0x00 \<notin> set bs \<Longrightarrow> c_string bs = bs"
  by (auto simp: c_string_def takeWhile_eq_all_conv)

lemma manifest_only_parse_padded:
  "manifest_only_parse (padded_manifest n) = manifest_json"
proof -
  have ws: "json_ws (CHR 0x20)" by (simp add: json_ws_def)
  have "dropWhile json_ws (padded_manifest n) = padded_manifest n"
    by (simp add: padded_manifest_def manifest_text_def json_ws_def)
  moreover have "dropWhile json_ws (rev (padded_manifest n)) = rev manifest_text"
    unfolding padded_manifest_def rev_append rev_replicate
      dropWhile_replicate_append [of json_ws, OF ws]
    by (simp add: manifest_text_def json_ws_def)
  ultimately show ?thesis by (simp add: manifest_only_parse_def)
qed

lemma take_padded_manifest: "take 200 (padded_manifest (128 + n)) = padded_manifest 128"
  by (simp add: padded_manifest_def manifest_text_def replicate_add)

lemma read_manifest_padded:
  "read_manifest padded_host (manifest_zip (padded_manifest 200)) None None
     = Inr (0, Some ''app.dat'', Some ''app.bin'')"
proof (rule read_manifest_found)
  show "zip_fopen (manifest_zip (padded_manifest 200)) ''manifest.json''
          = Some (''manifest.json'', member (padded_manifest 200))"
    by (simp add: zip_fopen_def manifest_zip_def member_def)
  have "take 200 (padded_manifest (128 + 72)) = padded_manifest 128"
    by (rule take_padded_manifest)
  then have t: "take 200 (padded_manifest 200) = padded_manifest 128" by simp
  have l: "length (padded_manifest 128) = 200"
    by (simp add: padded_manifest_def manifest_text_def)
  show "zip_fread (''manifest.json'', member (padded_manifest 200)) 200
          = (200, padded_manifest 128)"
    by (simp add: zip_fread_def member_def t l)
  show "(0::int) < 200" by simp
  have "CHR 0x00 \<notin> set (padded_manifest 128)"
    by (simp add: padded_manifest_def manifest_text_def)
  then have "c_string (padded_manifest 128) = padded_manifest 128"
    by (rule c_string_no_nul)
  then show "json_tokener_parse padded_host
               (c_string (padded_manifest 128 @ stack_residue padded_host)) = manifest_json"
    by (simp add: padded_host_def demo_host_def manifest_only_parse_padded)
qed

lemma zip_fread_length: "length (snd (zip_fread zf n)) \<le> n"
  by (simp add: zip_fread_def)

lemma read_manifest_member:
  assumes "z ''manifest.json'' = Some m"
  shows "read_manifest h z dat bin =
     (if \<not> m_opens m \<or> m_read_error m \<or> take 200 (m_data m) = [] then Inr (- 1, dat, bin)
      else
        (let json = json_tokener_parse h (c_string (take 200 (m_data m) @ stack_residue h)) in
         if json = JNull then Inr (- 1, dat, bin)
         else
           (case (case json_object_object_get_ex json ''manifest'' of
                    None \<Rightarrow> Inr (dat, bin)
                  | Some jobj \<Rightarrow>
                      (case json_object_object_get_ex jobj ''application'' of
                         None \<Rightarrow> Inr (dat, bin)
                       | Some jobj2 \<Rightarrow>
                           (case manifest_path h jobj2 ''dat_file'' dat of
                              Inl c \<Rightarrow> Inl c
                            | Inr dat' \<Rightarrow>
                                (case manifest_path h jobj2 ''bin_file'' bin of
                                   Inl c \<Rightarrow> Inl c
                                 | Inr bin' \<Rightarrow> Inr (dat', bin'))))) of
              Inl c \<Rightarrow> Inl c
            | Inr (dat', bin') \<Rightarrow>
                if dat' = None \<or> bin' = None then Inr (- 1, dat', bin')
                else Inr (0, dat', bin'))))"
proof (cases "m_data m = []")
  case True
  with assms show ?thesis
    by (simp add: read_manifest_def zip_fopen_def zip_fread_def Let_def)
next
  case False
  with assms show ?thesis
    by (simp add: read_manifest_def zip_fopen_def zip_fread_def Let_def min_def)
qed

lemma take_indented: "take 200 indented_manifest = replicate 150 (CHR 0x20) @ take 50 manifest_text"
  by (simp add: indented_manifest_def)

lemma manifest_only_parse_cut:
  "manifest_only_parse (take 200 indented_manifest) = JNull"
proof -
  have ws: "json_ws (CHR 0x20)" by (simp add: json_ws_def)
  have "dropWhile json_ws (take 200 indented_manifest) = take 50 manifest_text"
    unfolding take_indented dropWhile_replicate_append [of json_ws, OF ws]
    by (simp add: manifest_text_def json_ws_def)
  then have d: "dropWhile json_ws (take 200 indented_manifest) = take 50 manifest_text" .
  have l: "length (rev (dropWhile json_ws (rev (take 50 manifest_text)))) \<le> 50"
    by (metis length_rev length_dropWhile_le length_take min.cobounded2 order_trans)
  have m: "length manifest_text = 72" by (simp add: manifest_text_def)
  have "rev (dropWhile json_ws (rev (take 50 manifest_text))) \<noteq> manifest_text"
  proof
    assume "rev (dropWhile json_ws (rev (take 50 manifest_text))) = manifest_text"
    then have "length (rev (dropWhile json_ws (rev (take 50 manifest_text)))) = 72"
      using m by simp
    with l show False by simp
  qed
  with d have "rev (dropWhile json_ws (rev (dropWhile json_ws (take 200 indented_manifest))))
          \<noteq> manifest_text"
    by simp
  then show ?thesis by (simp add: manifest_only_parse_def)
qed

text \<open>
  C9, as the code has it. \<open>read_manifest\<close> reads at most 200 bytes of
  \<open>manifest.json\<close> and its result depends on the manifest through these bytes alone:
  two archives whose manifests agree on their first 200 bytes give the same result; and
  where the C string that starts with these bytes does not parse, \<open>read_manifest\<close>
  fails with -1, whatever the full manifest is; where it parses to an object with
  \<open>manifest.application.dat_file\<close> and \<open>bin_file\<close> as strings (and the
  member opens and reads), \<open>read_manifest\<close> returns 0 with the two paths,
  whatever the length of the manifest is.
\<close>

theorem manifest_first_200_bytes:
  assumes "z ''manifest.json'' = Some m"
  shows "length (snd (zip_fread (''manifest.json'', m) 200)) \<le> 200
       \<and> (\<forall>(z'::zip_t) m'. z' ''manifest.json'' = Some m'
                   \<and> take 200 (m_data m') = take 200 (m_data m)
                   \<and> m_opens m' = m_opens m \<and> m_read_error m' = m_read_error m
              \<longrightarrow> read_manifest h z' dat bin = read_manifest h z dat bin)
       \<and> (json_tokener_parse h (c_string (take 200 (m_data m) @ stack_residue h)) = JNull
              \<longrightarrow> read_manifest h z dat bin = Inr (- 1, dat, bin))
       \<and> (m_opens m \<and> m_read_error m = False \<and> 0 < length (m_data m)
            \<and> json_object_object_get_ex
                  (json_tokener_parse h (c_string (take 200 (m_data m) @ stack_residue h)))
                  ''manifest'' = Some j1
            \<and> json_object_object_get_ex j1 ''application'' = Some j2
            \<and> json_object_object_get_ex j2 ''dat_file'' = Some (JString d)
            \<and> json_object_object_get_ex j2 ''bin_file'' = Some (JString b)
              \<longrightarrow> read_manifest h z dat bin = Inr (0, Some d, Some b))"
proof (intro conjI allI impI)
  show "length (snd (zip_fread (''manifest.json'', m) 200)) \<le> 200"
    by (rule zip_fread_length)
next
  fix z' :: zip_t and m' :: zip_member
  assume a: "z' ''manifest.json'' = Some m'
                   \<and> take 200 (m_data m') = take 200 (m_data m)
                   \<and> m_opens m' = m_opens m \<and> m_read_error m' = m_read_error m"
  then have "z' ''manifest.json'' = Some m'" by simp
  from read_manifest_member [of z' m' h dat bin, OF this]
    read_manifest_member [of z m h dat bin, OF assms] a
  show "read_manifest h z' dat bin = read_manifest h z dat bin" by simp
next
  assume "json_tokener_parse h (c_string (take 200 (m_data m) @ stack_residue h)) = JNull"
  with read_manifest_member [of z m h dat bin, OF assms]
  show "read_manifest h z dat bin = Inr (- 1, dat, bin)" by simp
next
  assume a: "m_opens m \<and> m_read_error m = False \<and> 0 < length (m_data m)
            \<and> json_object_object_get_ex
                  (json_tokener_parse h (c_string (take 200 (m_data m) @ stack_residue h)))
                  ''manifest'' = Some j1
            \<and> json_object_object_get_ex j1 ''application'' = Some j2
            \<and> json_object_object_get_ex j2 ''dat_file'' = Some (JString d)
            \<and> json_object_object_get_ex j2 ''bin_file'' = Some (JString b)"
  then have "json_tokener_parse h (c_string (take 200 (m_data m) @ stack_residue h)) \<noteq> JNull"
    by auto
  with a read_manifest_member [of z m h dat bin, OF assms]
  show "read_manifest h z dat bin = Inr (0, Some d, Some b)"
    by (simp add: manifest_path_def)
qed

text \<open>
  C9 as stated (every manifest longer than 200 bytes is rejected) does not hold: a
  manifest of 272 bytes, the document followed by 200 spaces, is valid as a whole, its
  first 200 bytes parse as well, and \<open>read_manifest\<close> returns 0 with both paths.
\<close>

theorem padded_manifest_counterexample:
  "zip_open padded_host = Some (manifest_zip (padded_manifest 200))
   \<and> manifest_zip (padded_manifest 200) ''manifest.json'' = Some (member (padded_manifest 200))
   \<and> length (m_data (member (padded_manifest 200))) = 272
   \<and> json_tokener_parse padded_host (padded_manifest 200) = manifest_json
   \<and> read_manifest padded_host (manifest_zip (padded_manifest 200)) None None
        = Inr (0, Some ''app.dat'', Some ''app.bin'')"
proof -
  have "length (m_data (member (padded_manifest 200))) = 272"
    by (simp add: member_def padded_manifest_def manifest_text_def)
  moreover have "json_tokener_parse padded_host (padded_manifest 200) = manifest_json"
    by (simp add: padded_host_def demo_host_def manifest_only_parse_padded)
  moreover have "zip_open padded_host = Some (manifest_zip (padded_manifest 200))"
    by (simp add: padded_host_def demo_host_sel)
  moreover have "manifest_zip (padded_manifest 200) ''manifest.json''
                   = Some (member (padded_manifest 200))"
    by (simp add: manifest_zip_def)
  ultimately show ?thesis using read_manifest_padded by simp
qed

theorem manifest_first_200_bytes_witness:
  "manifest_zip (padded_manifest 200) ''manifest.json'' = Some (member (padded_manifest 200))
   \<and> manifest_zip (padded_manifest 300) ''manifest.json'' = Some (member (padded_manifest 300))
   \<and> take 200 (m_data (member (padded_manifest 300)))
        = take 200 (m_data (member (padded_manifest 200)))
   \<and> json_tokener_parse padded_host
        (c_string (take 200 (m_data (member (padded_manifest 200))) @ stack_residue padded_host))
        = manifest_json
   \<and> read_manifest padded_host (manifest_zip (padded_manifest 200)) None None
        = Inr (0, Some ''app.dat'', Some ''app.bin'')
   \<and> read_manifest padded_host (manifest_zip (padded_manifest 300)) None None
        = Inr (0, Some ''app.dat'', Some ''app.bin'')
   \<and> manifest_zip indented_manifest ''manifest.json'' = Some (member indented_manifest)
   \<and> length indented_manifest = 222
   \<and> json_tokener_parse padded_host
        (c_string (take 200 (m_data (member indented_manifest)) @ stack_residue padded_host))
        = JNull
   \<and> read_manifest padded_host (manifest_zip indented_manifest) None None
        = Inr (- 1, None, None)"
proof -
  have a: "manifest_zip (padded_manifest 200) ''manifest.json''
             = Some (member (padded_manifest 200))"
    by (simp add: manifest_zip_def)
  have b: "manifest_zip (padded_manifest 300) ''manifest.json''
             = Some (member (padded_manifest 300))"
    by (simp add: manifest_zip_def)
  have "take 200 (padded_manifest (128 + 172)) = padded_manifest 128"
    and "take 200 (padded_manifest (128 + 72)) = padded_manifest 128"
    by (rule take_padded_manifest)+
  then have c: "take 200 (m_data (member (padded_manifest 300)))
                  = take 200 (m_data (member (padded_manifest 200)))"
    by (simp add: member_def)
  have d: "manifest_zip indented_manifest ''manifest.json'' = Some (member indented_manifest)"
    by (simp add: manifest_zip_def)
  have e: "length indented_manifest = 222"
    by (simp add: indented_manifest_def manifest_text_def)
  have "CHR 0x00 \<notin> set (take 200 indented_manifest)"
    by (simp add: indented_manifest_def manifest_text_def)
  then have "c_string (take 200 indented_manifest) = take 200 indented_manifest"
    by (rule c_string_no_nul)
  then have f: "json_tokener_parse padded_host
        (c_string (take 200 (m_data (member indented_manifest)) @ stack_residue padded_host))
        = JNull"
    by (simp add: padded_host_def demo_host_def member_def manifest_only_parse_cut)
  note T1 = manifest_first_200_bytes
    [of "manifest_zip (padded_manifest 200)" "member (padded_manifest 200)" padded_host None None,
     OF a]
  note T2 = manifest_first_200_bytes
    [of "manifest_zip indented_manifest" "member indented_manifest" padded_host None None,
     OF d]
  have "manifest_zip (padded_manifest 300) ''manifest.json'' = Some (member (padded_manifest 300))
      \<and> take 200 (m_data (member (padded_manifest 300)))
          = take 200 (m_data (member (padded_manifest 200)))
      \<and> m_opens (member (padded_manifest 300)) = m_opens (member (padded_manifest 200))
      \<and> m_read_error (member (padded_manifest 300)) = m_read_error (member (padded_manifest 200))"
    using b c by (simp add: member_def)
  with T1 [THEN conjunct2, THEN conjunct1, THEN spec, THEN spec, THEN mp,
           of "manifest_zip (padded_manifest 300)" "member (padded_manifest 300)"]
  have "read_manifest padded_host (manifest_zip (padded_manifest 300)) None None
          = read_manifest padded_host (manifest_zip (padded_manifest 200)) None None" .
  note eq = this
  have "take 200 (padded_manifest (128 + 72)) = padded_manifest 128"
    by (rule take_padded_manifest)
  then have t: "take 200 (m_data (member (padded_manifest 200))) = padded_manifest 128"
    by (simp add: member_def)
  have "CHR 0x00 \<notin> set (padded_manifest 128)"
    by (simp add: padded_manifest_def manifest_text_def)
  then have "c_string (padded_manifest 128) = padded_manifest 128"
    by (rule c_string_no_nul)
  then have p: "json_tokener_parse padded_host
        (c_string (take 200 (m_data (member (padded_manifest 200))) @ stack_residue padded_host))
        = manifest_json"
    unfolding t by (simp add: padded_host_def demo_host_def manifest_only_parse_padded)
  have "m_opens (member (padded_manifest 200))
      \<and> m_read_error (member (padded_manifest 200)) = False
      \<and> 0 < length (m_data (member (padded_manifest 200)))
      \<and> json_object_object_get_ex
            (json_tokener_parse padded_host
               (c_string (take 200 (m_data (member (padded_manifest 200)))
                          @ stack_residue padded_host)))
            ''manifest''
          = Some (JObject [(''application'',
               JObject [(''bin_file'', JString ''app.bin''), (''dat_file'', JString ''app.dat'')])])
      \<and> json_object_object_get_ex
            (JObject [(''application'',
               JObject [(''bin_file'', JString ''app.bin''), (''dat_file'', JString ''app.dat'')])])
            ''application''
          = Some (JObject [(''bin_file'', JString ''app.bin''), (''dat_file'', JString ''app.dat'')])
      \<and> json_object_object_get_ex
            (JObject [(''bin_file'', JString ''app.bin''), (''dat_file'', JString ''app.dat'')])
            ''dat_file'' = Some (JString ''app.dat'')
      \<and> json_object_object_get_ex
            (JObject [(''bin_file'', JString ''app.bin''), (''dat_file'', JString ''app.dat'')])
            ''bin_file'' = Some (JString ''app.bin'')"
    unfolding p by (simp add: member_def manifest_json_def padded_manifest_def)
  with T1 [THEN conjunct2, THEN conjunct2, THEN conjunct2, THEN mp,
           of "JObject [(''application'',
               JObject [(''bin_file'', JString ''app.bin''), (''dat_file'', JString ''app.dat'')])]"
              "JObject [(''bin_file'', JString ''app.bin''), (''dat_file'', JString ''app.dat'')]"
              "''app.dat''" "''app.bin''"]
  have g0: "read_manifest padded_host (manifest_zip (padded_manifest 200)) None None
          = Inr (0, Some ''app.dat'', Some ''app.bin'')" .
  with eq have g: "read_manifest padded_host (manifest_zip (padded_manifest 300)) None None
          = Inr (0, Some ''app.dat'', Some ''app.bin'')"
    by simp
  from T2 [THEN conjunct2, THEN conjunct2, THEN conjunct1, THEN mp, OF f]
  have h: "read_manifest padded_host (manifest_zip indented_manifest) None None
          = Inr (- 1, None, None)" .
  show ?thesis
    by (intro conjI) (rule a b c p g0 g d e f h)+
qed

section \<open>Connecting\<close>

lemma failed_connects_snoc:
  "failed_connects n a t @ [BlzConnect a t, SleepSec 5] = failed_connects (Suc n) a t"
  by (induction n) auto

lemma connect_loop_success:
  "trynum + k < CONNECT_MAX_TRY \<Longrightarrow>
   blz_connect r (connects s + k) a t = Some dv \<Longrightarrow>
   (\<forall>j<k. blz_connect r (connects s + j) a t = None) \<Longrightarrow>
   connect_loop r a t trynum s =
     (trynum + k,
      s\<lparr>dev := Some dv, connects := connects s + Suc k,
        calls := calls s @ failed_connects k a t @ [BlzConnect a t],
        errors := errors s @ replicate k ''Could not connect to %s''\<rparr>)"
proof (induction k arbitrary: trynum s)
  case 0
  then show ?case
    by (subst connect_loop.simps) (simp add: Let_def call_def)
next
  case (Suc k)
  let ?s2 = "call (SleepSec 5) (LOG_ERR ''Could not connect to %s''
               (call (BlzConnect a t) (s\<lparr>dev := None, connects := Suc (connects s)\<rparr>)))"
  have none: "blz_connect r (connects s) a t = None"
    using Suc.prems(3) by force
  have more: "Suc trynum < CONNECT_MAX_TRY" using Suc.prems(1) by simp
  have step: "connect_loop r a t trynum s = connect_loop r a t (Suc trynum) ?s2"
    using none more by (subst connect_loop.simps) (simp add: Let_def)
  have c: "connects ?s2 = Suc (connects s)" by (simp add: call_def LOG_ERR_def)
  have a1: "Suc trynum + k < CONNECT_MAX_TRY" using Suc.prems(1) by simp
  have a2: "blz_connect r (connects ?s2 + k) a t = Some dv"
    using Suc.prems(2) c by simp
  have a3: "\<forall>j<k. blz_connect r (connects ?s2 + j) a t = None"
  proof (intro allI impI)
    fix j assume "j < k"
    then have "Suc j < Suc k" by simp
    with Suc.prems(3) have "blz_connect r (connects s + Suc j) a t = None" by blast
    then show "blz_connect r (connects ?s2 + j) a t = None" using c by simp
  qed
  show ?case
    unfolding step Suc.IH [OF a1 a2 a3]
    by (simp add: call_def LOG_ERR_def replicate_append_same)
qed

lemma connect_loop_give_up:
  "trynum + n = CONNECT_MAX_TRY \<Longrightarrow> 0 < n \<Longrightarrow>
   (\<forall>j<n. blz_connect r (connects s + j) a t = None) \<Longrightarrow>
   connect_loop r a t trynum s =
     (CONNECT_MAX_TRY,
      s\<lparr>dev := None, connects := connects s + n,
        calls := calls s @ failed_connects n a t,
        errors := errors s @ replicate n ''Could not connect to %s''\<rparr>)"
proof (induction n arbitrary: trynum s)
  case 0
  then show ?case by simp
next
  case (Suc n)
  let ?s2 = "call (SleepSec 5) (LOG_ERR ''Could not connect to %s''
               (call (BlzConnect a t) (s\<lparr>dev := None, connects := Suc (connects s)\<rparr>)))"
  have none: "blz_connect r (connects s) a t = None"
    using Suc.prems(3) by force
  have c: "connects ?s2 = Suc (connects s)" by (simp add: call_def LOG_ERR_def)
  show ?case
  proof (cases n)
    case 0
    with Suc.prems(1) have "Suc trynum = CONNECT_MAX_TRY" by simp
    then have "connect_loop r a t trynum s = (CONNECT_MAX_TRY, ?s2)"
      using none by (subst connect_loop.simps) (simp add: Let_def)
    with 0 show ?thesis by (simp add: call_def LOG_ERR_def)
  next
    case (Suc m)
    with Suc.prems(1) have more: "Suc trynum < CONNECT_MAX_TRY" by simp
    have step: "connect_loop r a t trynum s = connect_loop r a t (Suc trynum) ?s2"
      using none more by (subst connect_loop.simps) (simp add: Let_def)
    have a1: "Suc trynum + n = CONNECT_MAX_TRY" using Suc.prems(1) by simp
    have a2: "0 < n" using Suc by simp
    have a3: "\<forall>j<n. blz_connect r (connects ?s2 + j) a t = None"
    proof (intro allI impI)
      fix j assume "j < n"
      then have "Suc j < Suc n" by simp
      with Suc.prems(3) have "blz_connect r (connects s + Suc j) a t = None" by blast
      then show "blz_connect r (connects ?s2 + j) a t = None" using c by simp
    qed
    show ?thesis
      unfolding step Suc.IH [OF a1 a2 a3]
      by (simp add: call_def LOG_ERR_def replicate_append_same)
  qed
qed

lemma connect_loop_calls:
  "\<exists>k ok. calls (snd (connect_loop r a t 0 s))
             = calls s @ failed_connects k a t @ (if ok then [BlzConnect a t] else [])
          \<and> k + (if ok then 1 else 0) \<le> CONNECT_MAX_TRY
          \<and> (ok \<longleftrightarrow> fst (connect_loop r a t 0 s) < CONNECT_MAX_TRY)"
proof -
  let ?none = "\<lambda>j. blz_connect r (connects s + j) a t = None"
  consider (first) "\<not> ?none 0"
    | (second) "?none 0" "\<not> ?none 1"
    | (third) "?none 0" "?none 1" "\<not> ?none 2"
    | (never) "?none 0" "?none 1" "?none 2"
    by blast
  then show ?thesis
  proof cases
    case first
    then obtain dv where dv: "blz_connect r (connects s + 0) a t = Some dv" by auto
    have "connect_loop r a t 0 s =
           (0 + 0, s\<lparr>dev := Some dv, connects := connects s + Suc 0,
              calls := calls s @ failed_connects 0 a t @ [BlzConnect a t],
              errors := errors s @ replicate 0 ''Could not connect to %s''\<rparr>)"
      by (rule connect_loop_success [OF _ dv]) (simp_all add: CONNECT_MAX_TRY_def)
    then show ?thesis
      by (intro exI [of _ 0] exI [of _ True]) (simp add: CONNECT_MAX_TRY_def)
  next
    case second
    then obtain dv where dv: "blz_connect r (connects s + 1) a t = Some dv" by auto
    have "\<forall>j<1. blz_connect r (connects s + j) a t = None" using second(1) by simp
    with dv have "connect_loop r a t 0 s =
           (0 + 1, s\<lparr>dev := Some dv, connects := connects s + Suc 1,
              calls := calls s @ failed_connects 1 a t @ [BlzConnect a t],
              errors := errors s @ replicate 1 ''Could not connect to %s''\<rparr>)"
      by (intro connect_loop_success) (simp_all add: CONNECT_MAX_TRY_def)
    then show ?thesis
      by (intro exI [of _ 1] exI [of _ True]) (simp add: CONNECT_MAX_TRY_def)
  next
    case third
    then obtain dv where dv: "blz_connect r (connects s + 2) a t = Some dv" by auto
    have "\<forall>j<2. blz_connect r (connects s + j) a t = None"
      using third(1,2) by (auto simp: less_Suc_eq numeral_2_eq_2)
    with dv have "connect_loop r a t 0 s =
           (0 + 2, s\<lparr>dev := Some dv, connects := connects s + Suc 2,
              calls := calls s @ failed_connects 2 a t @ [BlzConnect a t],
              errors := errors s @ replicate 2 ''Could not connect to %s''\<rparr>)"
      by (intro connect_loop_success) (simp_all add: CONNECT_MAX_TRY_def)
    then show ?thesis
      by (intro exI [of _ 2] exI [of _ True]) (simp add: CONNECT_MAX_TRY_def)
  next
    case never
    then have "\<forall>j<3. blz_connect r (connects s + j) a t = None"
      by (auto simp: less_Suc_eq numeral_3_eq_3)
    then have "connect_loop r a t 0 s =
           (CONNECT_MAX_TRY, s\<lparr>dev := None, connects := connects s + 3,
              calls := calls s @ failed_connects 3 a t,
              errors := errors s @ replicate 3 ''Could not connect to %s''\<rparr>)"
      by (intro connect_loop_give_up) (simp_all add: CONNECT_MAX_TRY_def)
    then show ?thesis
      by (intro exI [of _ 3] exI [of _ False]) (simp add: CONNECT_MAX_TRY_def)
  qed
qed

lemma ble_enter_dfu_give_up:
  assumes "blz_init r interface"
    and "\<forall>j<CONNECT_MAX_TRY. blz_connect r (connects s + j) a t = None"
  shows "ble_enter_dfu r interface a t s =
           Some (False,
                 s\<lparr>ctx := Some interface, dev := None, connects := connects s + 3,
                   calls := calls s @ BlzInit interface # failed_connects 3 a t,
                   errors := errors s @ replicate 3 ''Could not connect to %s''
                               @ [''Gave up connecting to %s'']\<rparr>)"
proof -
  let ?s1 = "call (BlzInit interface) (s\<lparr>ctx := Some interface\<rparr>)"
  have c: "connects ?s1 = connects s" by (simp add: call_def)
  have "\<forall>j<3. blz_connect r (connects ?s1 + j) a t = None"
    using assms(2) c by (simp add: CONNECT_MAX_TRY_def)
  then have "connect_loop r a t 0 ?s1 =
           (CONNECT_MAX_TRY, ?s1\<lparr>dev := None, connects := connects ?s1 + 3,
              calls := calls ?s1 @ failed_connects 3 a t,
              errors := errors ?s1 @ replicate 3 ''Could not connect to %s''\<rparr>)"
    by (intro connect_loop_give_up) (simp_all add: CONNECT_MAX_TRY_def)
  with assms(1) show ?thesis
    by (simp add: ble_enter_dfu_def Let_def call_def LOG_ERR_def)
qed

text \<open>
  C10. On every radio the connection loop of \<open>ble_enter_dfu\<close> ends after at most
  \<open>CONNECT_MAX_TRY\<close> = 3 calls of \<open>blz_connect\<close>, each failed one followed by a
  sleep of 5 seconds, and it ends with \<open>trynum\<close> below the maximum exactly when the
  last call succeeded. Where the interface initialises and three attempts in a row fail,
  \<open>ble_enter_dfu\<close> returns false after \<open>blz_init\<close>, the three attempts and
  their sleeps: no characteristic is looked up or used, and \<open>cp\<close> and \<open>dp\<close> are
  as before.
\<close>

theorem connect_gives_up_after_three:
  "(\<exists>k ok. calls (snd (connect_loop r a t 0 s))
             = calls s @ failed_connects k a t @ (if ok then [BlzConnect a t] else [])
          \<and> k + (if ok then 1 else 0) \<le> CONNECT_MAX_TRY
          \<and> (ok \<longleftrightarrow> fst (connect_loop r a t 0 s) < CONNECT_MAX_TRY))
   \<and> (blz_init r interface
       \<and> (\<forall>j<CONNECT_MAX_TRY. blz_connect r (connects s + j) a t = None) \<longrightarrow>
        (\<exists>s'. ble_enter_dfu r interface a t s = Some (False, s')
           \<and> calls s' = calls s @ BlzInit interface # failed_connects 3 a t
           \<and> filter touches_characteristic (BlzInit interface # failed_connects 3 a t) = []
           \<and> cp s' = cp s \<and> dp s' = dp s))"
proof (intro conjI impI)
  show "\<exists>k ok. calls (snd (connect_loop r a t 0 s))
             = calls s @ failed_connects k a t @ (if ok then [BlzConnect a t] else [])
          \<and> k + (if ok then 1 else 0) \<le> CONNECT_MAX_TRY
          \<and> (ok \<longleftrightarrow> fst (connect_loop r a t 0 s) < CONNECT_MAX_TRY)"
    by (rule connect_loop_calls)
next
  assume a: "blz_init r interface
       \<and> (\<forall>j<CONNECT_MAX_TRY. blz_connect r (connects s + j) a t = None)"
  have f: "filter touches_characteristic (BlzInit interface # failed_connects 3 a t) = []"
    by (simp add: numeral_3_eq_3)
  from a ble_enter_dfu_give_up [of r interface s a t] f
  show "\<exists>s'. ble_enter_dfu r interface a t s = Some (False, s')
           \<and> calls s' = calls s @ BlzInit interface # failed_connects 3 a t
           \<and> filter touches_characteristic (BlzInit interface # failed_connects 3 a t) = []
           \<and> cp s' = cp s \<and> dp s' = dp s"
    by simp
qed

theorem connect_gives_up_after_three_witness:
  "blz_init absent_radio ''hci0''
   \<and> blz_connect absent_radio (connects ble_initial + 0) ''C0:11:22:33:44:55'' 1 = None
   \<and> blz_connect absent_radio (connects ble_initial + 1) ''C0:11:22:33:44:55'' 1 = None
   \<and> blz_connect absent_radio (connects ble_initial + 2) ''C0:11:22:33:44:55'' 1 = None
   \<and> returned (ble_enter_dfu absent_radio ''hci0'' ''C0:11:22:33:44:55'' 1 ble_initial)
       = Some False
   \<and> calls_made (ble_enter_dfu absent_radio ''hci0'' ''C0:11:22:33:44:55'' 1 ble_initial)
       = Some [BlzInit ''hci0'',
               BlzConnect ''C0:11:22:33:44:55'' 1, SleepSec 5,
               BlzConnect ''C0:11:22:33:44:55'' 1, SleepSec 5,
               BlzConnect ''C0:11:22:33:44:55'' 1, SleepSec 5]"
proof -
  have a: "blz_init absent_radio ''hci0''"
    by (simp add: absent_radio_def demo_radio_def)
  have b: "\<forall>j<CONNECT_MAX_TRY.
         blz_connect absent_radio (connects ble_initial + j) ''C0:11:22:33:44:55'' 1 = None"
    by (simp add: absent_radio_def demo_radio_def)
  from connect_gives_up_after_three
         [of absent_radio "''C0:11:22:33:44:55''" 1 ble_initial "''hci0''"] a b
  obtain s' where
    "ble_enter_dfu absent_radio ''hci0'' ''C0:11:22:33:44:55'' 1 ble_initial = Some (False, s')"
    "calls s' = calls ble_initial @ BlzInit ''hci0'' # failed_connects 3 ''C0:11:22:33:44:55'' 1"
    by blast
  then have "returned (ble_enter_dfu absent_radio ''hci0'' ''C0:11:22:33:44:55'' 1 ble_initial)
       = Some False"
    and "calls_made (ble_enter_dfu absent_radio ''hci0'' ''C0:11:22:33:44:55'' 1 ble_initial)
       = Some [BlzInit ''hci0'',
               BlzConnect ''C0:11:22:33:44:55'' 1, SleepSec 5,
               BlzConnect ''C0:11:22:33:44:55'' 1, SleepSec 5,
               BlzConnect ''C0:11:22:33:44:55'' 1, SleepSec 5]"
    by (simp_all add: returned_def calls_made_def ble_initial_def numeral_3_eq_3)
  moreover have "blz_connect absent_radio k ''C0:11:22:33:44:55'' 1 = None" for k
    by (simp add: absent_radio_def demo_radio_def)
  ultimately show ?thesis using a by (intro conjI)
qed

section \<open>Entry without the buttonless characteristic\<close>

lemma ble_enter_dfu_direct:
  assumes "blz_init r interface"
    and "k < CONNECT_MAX_TRY"
    and "blz_connect r (connects s + k) a t = Some dv"
    and "\<forall>j<k. blz_connect r (connects s + j) a t = None"
    and "blz_get_serv_from_uuid dv DFU_SERVICE_UUID = Some srv"
    and "blz_get_char_from_uuid srv DFU_BUTTONLESS_UUID = None"
    and "blz_get_char_from_uuid srv DFU_DATA_UUID = Some d"
    and "blz_get_char_from_uuid srv DFU_CONTROL_UUID = Some c"
  shows "ble_enter_dfu r interface a t s =
           Some (c_notify_ok c,
                 s\<lparr>ctx := Some interface, dev := Some dv, cp := Some c, dp := Some d,
                   connects := connects s + Suc k,
                   calls := calls s @ BlzInit interface # failed_connects k a t @
                     [BlzConnect a t, GetServ DFU_SERVICE_UUID, GetChar DFU_BUTTONLESS_UUID,
                      GetChar DFU_DATA_UUID, GetChar DFU_CONTROL_UUID, NotifyStart (c_uuid c)],
                   errors := errors s @ replicate k ''Could not connect to %s''
                               @ [''Could not find buttonless DFU UUID'']
                               @ (if c_notify_ok c then []
                                  else [''Could not start CP notification''])\<rparr>)"
proof -
  let ?s1 = "call (BlzInit interface) (s\<lparr>ctx := Some interface\<rparr>)"
  have c: "connects ?s1 = connects s" by (simp add: call_def)
  have "connect_loop r a t 0 ?s1 =
           (0 + k, ?s1\<lparr>dev := Some dv, connects := connects ?s1 + Suc k,
              calls := calls ?s1 @ failed_connects k a t @ [BlzConnect a t],
              errors := errors ?s1 @ replicate k ''Could not connect to %s''\<rparr>)"
    using assms(2,3,4) c by (intro connect_loop_success) simp_all
  with assms(1,2,5-8) show ?thesis
    by (simp add: ble_enter_dfu_def dfutarg_found_def Let_def call_def LOG_ERR_def)
qed

lemma dfutarg_dev_lookup:
  "blz_get_serv_from_uuid (dfutarg_dev n) DFU_SERVICE_UUID
     = Some [(DFU_CONTROL_UUID, plain_char DFU_CONTROL_UUID n),
             (DFU_DATA_UUID, plain_char DFU_DATA_UUID False)]"
  "blz_get_char_from_uuid [(DFU_CONTROL_UUID, plain_char DFU_CONTROL_UUID n),
             (DFU_DATA_UUID, plain_char DFU_DATA_UUID False)] DFU_BUTTONLESS_UUID = None"
  "blz_get_char_from_uuid [(DFU_CONTROL_UUID, plain_char DFU_CONTROL_UUID n),
             (DFU_DATA_UUID, plain_char DFU_DATA_UUID False)] DFU_DATA_UUID
     = Some (plain_char DFU_DATA_UUID False)"
  "blz_get_char_from_uuid [(DFU_CONTROL_UUID, plain_char DFU_CONTROL_UUID n),
             (DFU_DATA_UUID, plain_char DFU_DATA_UUID False)] DFU_CONTROL_UUID
     = Some (plain_char DFU_CONTROL_UUID n)"
  by (simp_all add: blz_get_serv_from_uuid_def blz_get_char_from_uuid_def dfutarg_dev_def
      DFU_SERVICE_UUID_def DFU_CONTROL_UUID_def DFU_DATA_UUID_def DFU_BUTTONLESS_UUID_def)

text \<open>
  C8, as the code has it. Where the interface initialises, a connection attempt among the
  first three succeeds, the DFU service is found, the buttonless characteristic is not,
  and the data and control characteristics are, \<open>ble_enter_dfu\<close> starts
  notifications on the control point and returns whether that succeeded. In both cases
  it has written to no characteristic and has neither disconnected nor connected again:
  its calls are \<open>blz_init\<close>, the connection attempts, the lookups of the service
  and of the three characteristics, and the start of notifications; \<open>cp\<close> and
  \<open>dp\<close> are the two characteristics found.
\<close>

theorem dfutarg_direct_entry:
  assumes "blz_init r interface"
    and "k < CONNECT_MAX_TRY"
    and "blz_connect r (connects s + k) a t = Some dv"
    and "\<forall>j<k. blz_connect r (connects s + j) a t = None"
    and "blz_get_serv_from_uuid dv DFU_SERVICE_UUID = Some srv"
    and "blz_get_char_from_uuid srv DFU_BUTTONLESS_UUID = None"
    and "blz_get_char_from_uuid srv DFU_DATA_UUID = Some d"
    and "blz_get_char_from_uuid srv DFU_CONTROL_UUID = Some c"
  shows "\<exists>s'. ble_enter_dfu r interface a t s = Some (c_notify_ok c, s')
           \<and> calls s' = calls s @ BlzInit interface # failed_connects k a t @
                     [BlzConnect a t, GetServ DFU_SERVICE_UUID, GetChar DFU_BUTTONLESS_UUID,
                      GetChar DFU_DATA_UUID, GetChar DFU_CONTROL_UUID, NotifyStart (c_uuid c)]
           \<and> dev s' = Some dv \<and> cp s' = Some c \<and> dp s' = Some d"
  using ble_enter_dfu_direct [OF assms] by simp

text \<open>
  C8 as stated (the entry succeeds) does not hold on a target in DFU mode whose control
  point refuses notifications: \<open>ble_enter_dfu\<close> returns false.
\<close>

theorem notify_refused_counterexample:
  "blz_connect deaf_radio 0 ''C0:11:22:33:44:55'' 1 = Some (dfutarg_dev False)
   \<and> blz_get_serv_from_uuid (dfutarg_dev False) DFU_SERVICE_UUID
       = Some [(DFU_CONTROL_UUID, plain_char DFU_CONTROL_UUID False),
               (DFU_DATA_UUID, plain_char DFU_DATA_UUID False)]
   \<and> blz_get_char_from_uuid [(DFU_CONTROL_UUID, plain_char DFU_CONTROL_UUID False),
               (DFU_DATA_UUID, plain_char DFU_DATA_UUID False)] DFU_BUTTONLESS_UUID = None
   \<and> blz_get_char_from_uuid [(DFU_CONTROL_UUID, plain_char DFU_CONTROL_UUID False),
               (DFU_DATA_UUID, plain_char DFU_DATA_UUID False)] DFU_DATA_UUID
       = Some (plain_char DFU_DATA_UUID False)
   \<and> blz_get_char_from_uuid [(DFU_CONTROL_UUID, plain_char DFU_CONTROL_UUID False),
               (DFU_DATA_UUID, plain_char DFU_DATA_UUID False)] DFU_CONTROL_UUID
       = Some (plain_char DFU_CONTROL_UUID False)
   \<and> returned (ble_enter_dfu deaf_radio ''hci0'' ''C0:11:22:33:44:55'' 1 ble_initial)
       = Some False"
proof -
  have i: "blz_init deaf_radio ''hci0''"
    by (simp add: deaf_radio_def demo_radio_def)
  have k: "(0::nat) < CONNECT_MAX_TRY" by (simp add: CONNECT_MAX_TRY_def)
  have c: "blz_connect deaf_radio (connects ble_initial + 0) ''C0:11:22:33:44:55'' 1
             = Some (dfutarg_dev False)"
    by (simp add: deaf_radio_def demo_radio_def)
  have n: "\<forall>j<0. blz_connect deaf_radio (connects ble_initial + j) ''C0:11:22:33:44:55'' 1 = None"
    by simp
  have "ble_enter_dfu deaf_radio ''hci0'' ''C0:11:22:33:44:55'' 1 ble_initial
          = Some (c_notify_ok (plain_char DFU_CONTROL_UUID False),
                 ble_initial\<lparr>ctx := Some ''hci0'', dev := Some (dfutarg_dev False),
                   cp := Some (plain_char DFU_CONTROL_UUID False),
                   dp := Some (plain_char DFU_DATA_UUID False),
                   connects := connects ble_initial + Suc 0,
                   calls := calls ble_initial @ BlzInit ''hci0''
                     # failed_connects 0 ''C0:11:22:33:44:55'' 1 @
                     [BlzConnect ''C0:11:22:33:44:55'' 1, GetServ DFU_SERVICE_UUID,
                      GetChar DFU_BUTTONLESS_UUID,
                      GetChar DFU_DATA_UUID, GetChar DFU_CONTROL_UUID,
                      NotifyStart (c_uuid (plain_char DFU_CONTROL_UUID False))],
                   errors := errors ble_initial @ replicate 0 ''Could not connect to %s''
                               @ [''Could not find buttonless DFU UUID'']
                               @ (if c_notify_ok (plain_char DFU_CONTROL_UUID False) then []
                                  else [''Could not start CP notification''])\<rparr>)"
    by (rule ble_enter_dfu_direct [OF i k c n dfutarg_dev_lookup])
  then have "returned (ble_enter_dfu deaf_radio ''hci0'' ''C0:11:22:33:44:55'' 1 ble_initial)
               = Some False"
    by (simp add: returned_def plain_char_def)
  moreover have "blz_connect deaf_radio 0 ''C0:11:22:33:44:55'' 1 = Some (dfutarg_dev False)"
    by (simp add: deaf_radio_def demo_radio_def)
  ultimately show ?thesis
    by (intro conjI) (rule dfutarg_dev_lookup | assumption)+
qed

theorem dfutarg_direct_entry_witness:
  "blz_init second_try_radio ''hci0''
   \<and> (1::nat) < CONNECT_MAX_TRY
   \<and> blz_connect second_try_radio (connects ble_initial + 1) ''C0:11:22:33:44:55'' 1
       = Some (dfutarg_dev True)
   \<and> blz_connect second_try_radio (connects ble_initial + 0) ''C0:11:22:33:44:55'' 1 = None
   \<and> returned (ble_enter_dfu second_try_radio ''hci0'' ''C0:11:22:33:44:55'' 1 ble_initial)
       = Some True
   \<and> calls_made (ble_enter_dfu second_try_radio ''hci0'' ''C0:11:22:33:44:55'' 1 ble_initial)
       = Some [BlzInit ''hci0'',
               BlzConnect ''C0:11:22:33:44:55'' 1, SleepSec 5,
               BlzConnect ''C0:11:22:33:44:55'' 1,
               GetServ DFU_SERVICE_UUID, GetChar DFU_BUTTONLESS_UUID,
               GetChar DFU_DATA_UUID, GetChar DFU_CONTROL_UUID,
               NotifyStart DFU_CONTROL_UUID]"
proof -
  have i: "blz_init second_try_radio ''hci0''"
    by (simp add: second_try_radio_def demo_radio_def)
  have k: "(1::nat) < CONNECT_MAX_TRY" by (simp add: CONNECT_MAX_TRY_def)
  have c: "blz_connect second_try_radio (connects ble_initial + 1) ''C0:11:22:33:44:55'' 1
             = Some (dfutarg_dev True)"
    by (simp add: second_try_radio_def demo_radio_def)
  have n: "\<forall>j<1. blz_connect second_try_radio (connects ble_initial + j)
                    ''C0:11:22:33:44:55'' 1 = None"
    by (simp add: second_try_radio_def demo_radio_def ble_initial_def)
  from dfutarg_direct_entry [OF i k c n dfutarg_dev_lookup]
  obtain s' where
    "ble_enter_dfu second_try_radio ''hci0'' ''C0:11:22:33:44:55'' 1 ble_initial
       = Some (c_notify_ok (plain_char DFU_CONTROL_UUID True), s')"
    "calls s' = calls ble_initial @ BlzInit ''hci0''
        # failed_connects 1 ''C0:11:22:33:44:55'' 1 @
          [BlzConnect ''C0:11:22:33:44:55'' 1, GetServ DFU_SERVICE_UUID,
           GetChar DFU_BUTTONLESS_UUID, GetChar DFU_DATA_UUID, GetChar DFU_CONTROL_UUID,
           NotifyStart (c_uuid (plain_char DFU_CONTROL_UUID True))]"
    by blast
  then have "returned (ble_enter_dfu second_try_radio ''hci0'' ''C0:11:22:33:44:55'' 1 ble_initial)
       = Some True"
    and "calls_made (ble_enter_dfu second_try_radio ''hci0'' ''C0:11:22:33:44:55'' 1 ble_initial)
       = Some [BlzInit ''hci0'',
               BlzConnect ''C0:11:22:33:44:55'' 1, SleepSec 5,
               BlzConnect ''C0:11:22:33:44:55'' 1,
               GetServ DFU_SERVICE_UUID, GetChar DFU_BUTTONLESS_UUID,
               GetChar DFU_DATA_UUID, GetChar DFU_CONTROL_UUID,
               NotifyStart DFU_CONTROL_UUID]"
    by (simp_all add: returned_def calls_made_def plain_char_def ble_initial_def)
  moreover have "blz_connect second_try_radio (connects ble_initial + 0)
                    ''C0:11:22:33:44:55'' 1 = None"
    by (simp add: second_try_radio_def demo_radio_def ble_initial_def)
  ultimately show ?thesis using i k c by (intro conjI)
qed

section \<open>Waiting for notifications\<close>

lemma blz_loop_timeout_flag:
  "flag s \<Longrightarrow> blz_loop_timeout handler flag timeout evs s = Some s"
  by (cases evs) auto

lemma blz_loop_timeout_late:
  "(\<forall>e\<in>set evs. timeout \<le> fst e) \<Longrightarrow> blz_loop_timeout handler flag timeout evs s = Some s"
  by (cases evs) auto

lemma wait_ends_at_first_indication:
  assumes "\<not> buttonless_noti s" and "t < 10000000" and "3 \<le> length data"
  shows "blz_loop_timeout buttonless_notify_handler buttonless_noti 10000000
           ((t, data) # evs) s
         = Some (s\<lparr>buttonless_noti := True,
                   errors := errors s @
                     (if data ! 2 = 0x01 then []
                      else [''Unexpected response (%zd) %x %x %x''])\<rparr>)"
proof -
  let ?s' = "(if data ! 2 \<noteq> 0x01 then LOG_ERR ''Unexpected response (%zd) %x %x %x'' s else s)
               \<lparr>buttonless_noti := True\<rparr>"
  have h: "buttonless_notify_handler data s = Some ?s'"
    using assms(3) by (simp add: buttonless_notify_handler_def)
  have f: "buttonless_noti ?s'" by simp
  have "blz_loop_timeout buttonless_notify_handler buttonless_noti 10000000
           ((t, data) # evs) s
        = blz_loop_timeout buttonless_notify_handler buttonless_noti 10000000 evs ?s'"
    using assms(1,2) h by simp
  also have "\<dots> = Some ?s'"
    using f by (simp only: blz_loop_timeout_flag)
  finally show ?thesis by (simp add: LOG_ERR_def)
qed

text \<open>
  C7. \<open>ble_read\<close> clears the flag and runs the event loop with a timeout of
  10000000 microseconds, that is 10 seconds. Where no notification arrives before the
  timeout it logs the failure and returns NULL. Where one arrives in time (and fits
  \<open>recv_buf\<close>), the wait ends with it, later ones are left alone, and
  \<open>ble_read\<close> returns \<open>recv_buf\<close>, which begins with the bytes of that
  notification.
\<close>

theorem ble_read_one_notification:
  "((\<forall>e\<in>set incoming. 10000000 \<le> fst e) \<longrightarrow>
      ble_read incoming s
        = Some (None, LOG_ERR ''BLE waiting for notification failed''
                        (call (LoopTimeout 10000000) (s\<lparr>control_noti := False\<rparr>))))
   \<and> (t < 10000000 \<and> length d \<le> length (recv_buf s) \<longrightarrow>
        ble_read ((t, d) # evs) s
          = Some (Some (d @ drop (length d) (recv_buf s)),
                  (call (LoopTimeout 10000000) s)
                    \<lparr>recv_buf := d @ drop (length d) (recv_buf s), control_noti := True\<rparr>)
        \<and> take (length d) (d @ drop (length d) (recv_buf s)) = d)"
proof (intro conjI impI)
  assume "\<forall>e\<in>set incoming. 10000000 \<le> fst e"
  then have "blz_loop_timeout control_notify_handler control_noti 10000000 incoming
               (call (LoopTimeout 10000000) (s\<lparr>control_noti := False\<rparr>))
             = Some (call (LoopTimeout 10000000) (s\<lparr>control_noti := False\<rparr>))"
    by (rule blz_loop_timeout_late)
  then show "ble_read incoming s
        = Some (None, LOG_ERR ''BLE waiting for notification failed''
                        (call (LoopTimeout 10000000) (s\<lparr>control_noti := False\<rparr>)))"
    by (simp add: ble_read_def call_def)
next
  assume a: "t < 10000000 \<and> length d \<le> length (recv_buf s)"
  let ?s0 = "call (LoopTimeout 10000000) (s\<lparr>control_noti := False\<rparr>)"
  let ?s1 = "?s0\<lparr>recv_buf := d @ drop (length d) (recv_buf ?s0), control_noti := True\<rparr>"
  have h: "control_notify_handler d ?s0 = Some ?s1"
    using a by (simp add: control_notify_handler_def call_def)
  have f: "control_noti ?s1" by simp
  have "blz_loop_timeout control_notify_handler control_noti 10000000 ((t, d) # evs) ?s0
          = blz_loop_timeout control_notify_handler control_noti 10000000 evs ?s1"
    using a h by (simp add: call_def)
  also have "\<dots> = Some ?s1" using f by (simp only: blz_loop_timeout_flag)
  finally show "ble_read ((t, d) # evs) s
          = Some (Some (d @ drop (length d) (recv_buf s)),
                  (call (LoopTimeout 10000000) s)
                    \<lparr>recv_buf := d @ drop (length d) (recv_buf s), control_noti := True\<rparr>)"
    by (simp add: ble_read_def call_def)
next
  show "take (length d) (d @ drop (length d) (recv_buf s)) = d" by simp
qed

theorem ble_read_one_notification_witness:
  "(10000000::nat) \<le> fst (20000000 :: nat, [0x60, 0x01, 0x01 :: byte])
   \<and> read_result (ble_read [(20000000, [0x60, 0x01, 0x01])] ble_initial) = Some None
   \<and> (1000::nat) < 10000000
   \<and> length [0x60, 0x06, 0x01 :: byte] \<le> length (recv_buf ble_initial)
   \<and> read_result (ble_read [(1000, [0x60, 0x06, 0x01]), (2000, [0x60, 0x01, 0x01])] ble_initial)
       = Some (Some ([0x60, 0x06, 0x01] @ replicate 197 0))"
proof -
  have a: "\<forall>e\<in>set [(20000000, [0x60, 0x01, 0x01 :: byte])]. (10000000::nat) \<le> fst e"
    by simp
  have b: "(1000::nat) < 10000000 \<and> length [0x60, 0x06, 0x01 :: byte] \<le> length (recv_buf ble_initial)"
    by (simp add: ble_initial_def)
  have d: "drop (length [0x60, 0x06, 0x01 :: byte]) (recv_buf ble_initial) = replicate 197 0"
    by (simp add: ble_initial_def)
  from ble_read_one_notification
         [of "[(20000000, [0x60, 0x01, 0x01])]" ble_initial, THEN conjunct1, THEN mp, OF a]
  have r1: "read_result (ble_read [(20000000, [0x60, 0x01, 0x01])] ble_initial) = Some None"
    by (simp add: read_result_def)
  from ble_read_one_notification
         [of _ ble_initial 1000 "[0x60, 0x06, 0x01]" "[(2000, [0x60, 0x01, 0x01])]",
          THEN conjunct2, THEN mp, OF b]
  have r2: "read_result (ble_read [(1000, [0x60, 0x06, 0x01]), (2000, [0x60, 0x01, 0x01])]
              ble_initial)
       = Some (Some ([0x60, 0x06, 0x01] @ drop (length [0x60, 0x06, 0x01 :: byte])
                                              (recv_buf ble_initial)))"
    by (simp add: read_result_def)
  show ?thesis
    using a b r1 r2 [unfolded d] by (intro conjI) simp_all
qed

section \<open>The buttonless path\<close>

text \<open>
  After the wait the program disconnects and connects to the address that blzlib prints
  for the array with \<open>mac[0]\<close> incremented, whether the flag was set or not. The
  increment is on a \<open>uint8_t\<close>: \<open>0xFF\<close> becomes \<open>0x00\<close>, with no carry
  into the next byte.
\<close>

lemma buttonless_wait_calls:
  "blz_loop_timeout buttonless_notify_handler flag timeout evs s = Some s' \<Longrightarrow>
     calls s' = calls s \<and> connects s' = connects s"
proof (induction evs arbitrary: s)
  case Nil
  then show ?case by simp
next
  case (Cons e evs)
  obtain t d where e: "e = (t, d)" by (cases e) auto
  show ?case
  proof (cases "flag s \<or> timeout \<le> t")
    case True
    with Cons.prems e show ?thesis by simp
  next
    case False
    with Cons.prems e obtain s1 where h: "buttonless_notify_handler d s = Some s1"
      and l: "blz_loop_timeout buttonless_notify_handler flag timeout evs s1 = Some s'"
      by (auto split: option.splits)
    from h have "calls s1 = calls s \<and> connects s1 = connects s"
      by (auto simp: buttonless_notify_handler_def LOG_ERR_def split: if_splits)
    with Cons.IH [OF l] show ?thesis by simp
  qed
qed

lemma enter_buttonless_calls:
  assumes "c_indicate_ok bch" and "c_write_ok bch"
    and "enter_buttonless r a t bch s = Some (b, s')"
  shows "\<exists>rest. calls s' = calls s @
           [IndicateStart (c_uuid bch), CharWrite (c_uuid bch) [0x01], LoopTimeout 10000000,
            Disconnect,
            BlzConnect (blz_mac_to_string_s r (mac0_increment (blz_string_to_mac_s r a))) t]
           @ rest"
proof -
  let ?s2 = "call (LoopTimeout 10000000)
               (call (CharWrite (c_uuid bch) [0x01]) (call (IndicateStart (c_uuid bch)) s))"
  from assms obtain s3 where w:
    "blz_loop_timeout buttonless_notify_handler buttonless_noti 10000000 (indications r) ?s2
       = Some s3"
    by (auto simp: enter_buttonless_def Let_def split: option.splits)
  from buttonless_wait_calls [OF w] have c3: "calls s3 = calls ?s2" by simp
  from assms w c3 show ?thesis
    by (auto simp: enter_buttonless_def dfutarg_found_def Let_def call_def LOG_ERR_def
        split: option.splits if_splits)
qed

lemma mac0_increment_bytes:
  "mac0_increment [b0, b1, b2, b3, b4, b5] = [b0 + 1, b1, b2, b3, b4, b5]"
  "mac0_increment [0xFF, b1, b2, b3, b4, b5] = [0x00, b1, b2, b3, b4, b5]"
  by (simp_all add: mac0_increment_def)

text \<open>
  The example: the run of \<open>ble_enter_dfu\<close> on the device in application mode.
\<close>

lemma buttonless_radio_sel:
  "blz_init buttonless_radio i"
  "blz_connect buttonless_radio k ''app'' t = Some app_dev"
  "blz_connect buttonless_radio k ''dfutarg'' t = Some (dfutarg_dev True)"
  "blz_mac_to_string_s buttonless_radio (mac0_increment (blz_string_to_mac_s buttonless_radio a))
     = ''dfutarg''"
  "indications buttonless_radio = [(1000, [0x20, 0x01, 0x02])]"
  by (simp_all add: buttonless_radio_def mac0_increment_def)

lemma buttonless_char_sel:
  "c_uuid buttonless_char = DFU_BUTTONLESS_UUID"
  "c_write_ok buttonless_char" "c_indicate_ok buttonless_char"
  by (simp_all add: buttonless_char_def)

lemma app_dev_lookup:
  "blz_get_serv_from_uuid app_dev DFU_SERVICE_UUID = Some [(DFU_BUTTONLESS_UUID, buttonless_char)]"
  "blz_get_char_from_uuid [(DFU_BUTTONLESS_UUID, buttonless_char)] DFU_BUTTONLESS_UUID
     = Some buttonless_char"
  by (simp_all add: blz_get_serv_from_uuid_def blz_get_char_from_uuid_def app_dev_def)

lemma wait_wrong_byte:
  assumes "\<not> buttonless_noti s"
  shows "blz_loop_timeout buttonless_notify_handler buttonless_noti 10000000
           [(1000, [0x20, 0x01, 0x02])] s
         = Some (s\<lparr>buttonless_noti := True,
                   errors := errors s @ [''Unexpected response (%zd) %x %x %x'']\<rparr>)"
proof -
  have "(1000::nat) < 10000000" and "3 \<le> length [0x20, 0x01, 0x02 :: byte]" by simp_all
  from wait_ends_at_first_indication [OF assms this, of "[]"]
  show ?thesis by simp
qed

lemma enter_buttonless_demo:
  assumes "\<not> buttonless_noti s"
  shows "enter_buttonless buttonless_radio ''app'' 1 buttonless_char s
   = Some (True,
       s\<lparr>buttonless_noti := True, dev := Some (dfutarg_dev True),
         cp := Some (plain_char DFU_CONTROL_UUID True),
         dp := Some (plain_char DFU_DATA_UUID False),
         connects := Suc (connects s),
         calls := calls s @
           [IndicateStart DFU_BUTTONLESS_UUID, CharWrite DFU_BUTTONLESS_UUID [0x01],
            LoopTimeout 10000000, Disconnect, BlzConnect ''dfutarg'' 1,
            GetServ DFU_SERVICE_UUID, GetChar DFU_DATA_UUID, GetChar DFU_CONTROL_UUID,
            NotifyStart DFU_CONTROL_UUID],
         errors := errors s @ [''Unexpected response (%zd) %x %x %x'']\<rparr>)"
proof -
  let ?s2 = "call (LoopTimeout 10000000)
               (call (CharWrite DFU_BUTTONLESS_UUID [0x01])
                  (call (IndicateStart DFU_BUTTONLESS_UUID) s))"
  have n: "\<not> buttonless_noti ?s2" using assms by (simp add: call_def)
  note w = wait_wrong_byte [OF n]
  show ?thesis
    apply (simp only: enter_buttonless_def Let_def buttonless_char_sel buttonless_radio_sel w
        if_True if_False not_True_eq_False simp_thms option.case dfutarg_dev_lookup)
    apply (simp add: call_def LOG_ERR_def)
    apply (simp add: dfutarg_found_def)
    apply (simp add: call_def plain_char_def)
    done
qed

lemma ble_enter_dfu_buttonless_demo:
  "ble_enter_dfu buttonless_radio ''hci0'' ''app'' 1 ble_initial
   = Some (True,
       ble_initial\<lparr>buttonless_noti := True, ctx := Some ''hci0'',
         dev := Some (dfutarg_dev True),
         cp := Some (plain_char DFU_CONTROL_UUID True),
         dp := Some (plain_char DFU_DATA_UUID False),
         connects := 2,
         calls :=
           [BlzInit ''hci0'', BlzConnect ''app'' 1, GetServ DFU_SERVICE_UUID,
            GetChar DFU_BUTTONLESS_UUID,
            IndicateStart DFU_BUTTONLESS_UUID, CharWrite DFU_BUTTONLESS_UUID [0x01],
            LoopTimeout 10000000, Disconnect, BlzConnect ''dfutarg'' 1,
            GetServ DFU_SERVICE_UUID, GetChar DFU_DATA_UUID, GetChar DFU_CONTROL_UUID,
            NotifyStart DFU_CONTROL_UUID],
         errors := [''Unexpected response (%zd) %x %x %x'']\<rparr>)"
proof -
  let ?s1 = "call (BlzInit ''hci0'') (ble_initial\<lparr>ctx := Some ''hci0''\<rparr>)"
  let ?s2 = "?s1\<lparr>dev := Some app_dev, connects := connects ?s1 + Suc 0,
              calls := calls ?s1 @ failed_connects 0 ''app'' 1 @ [BlzConnect ''app'' 1],
              errors := errors ?s1 @ replicate 0 ''Could not connect to %s''\<rparr>"
  let ?s4 = "call (GetChar DFU_BUTTONLESS_UUID) (call (GetServ DFU_SERVICE_UUID) ?s2)"
  have cl: "connect_loop buttonless_radio ''app'' 1 0 ?s1 = (0 + 0, ?s2)"
    by (rule connect_loop_success) (simp_all add: CONNECT_MAX_TRY_def buttonless_radio_sel)
  have n: "\<not> buttonless_noti ?s4" by (simp add: call_def ble_initial_def)
  have "ble_enter_dfu buttonless_radio ''hci0'' ''app'' 1 ble_initial
          = enter_buttonless buttonless_radio ''app'' 1 buttonless_char ?s4"
    using cl
    by (simp add: ble_enter_dfu_def Let_def buttonless_radio_sel CONNECT_MAX_TRY_def
        app_dev_lookup call_def)
  also note enter_buttonless_demo [OF n]
  finally show ?thesis
    by (simp add: call_def ble_initial_def)
qed

text \<open>
  C3, as the code has it. The wait that follows the write of \<open>0x01\<close> ends with the
  first indication handled within the 10000000 microseconds, whatever its third byte is:
  the handler sets the awaited flag in every case (the indication has the three bytes it
  reads), and a third byte other than \<open>0x01\<close> adds an error message and nothing
  else. And whatever arrived during the wait, the calls of the buttonless path are the
  start of indications, the write of \<open>0x01\<close>, the event loop, the disconnect and
  the connection to the incremented address, in this order.
\<close>

theorem buttonless_wait_any_notification:
  "(\<not> buttonless_noti s \<and> t < 10000000 \<and> 3 \<le> length data \<longrightarrow>
      blz_loop_timeout buttonless_notify_handler buttonless_noti 10000000
        ((t, data) # evs) s
      = Some (s\<lparr>buttonless_noti := True,
                errors := errors s @
                  (if data ! 2 = 0x01 then []
                   else [''Unexpected response (%zd) %x %x %x''])\<rparr>))
   \<and> (c_indicate_ok bch \<and> c_write_ok bch
        \<and> enter_buttonless r a atype bch s0 = Some (b, s') \<longrightarrow>
        (\<exists>rest. calls s' = calls s0 @
           [IndicateStart (c_uuid bch), CharWrite (c_uuid bch) [0x01], LoopTimeout 10000000,
            Disconnect,
            BlzConnect (blz_mac_to_string_s r (mac0_increment (blz_string_to_mac_s r a))) atype]
           @ rest))"
  using wait_ends_at_first_indication [of s t data evs]
    enter_buttonless_calls [of bch r a atype s0 b s']
  by blast

text \<open>
  C3 as stated (an indication whose third byte is not \<open>0x01\<close> does not satisfy the
  wait) does not hold: the only indication that arrives has third byte \<open>0x02\<close>,
  and it sets the awaited flag and ends the wait; the program logs the error, disconnects,
  connects to the bootloader and returns true.
\<close>

theorem wrong_third_byte_counterexample:
  "indications buttonless_radio = [(1000, [0x20, 0x01, 0x02])]
   \<and> blz_loop_timeout buttonless_notify_handler buttonless_noti 10000000
        [(1000, [0x20, 0x01, 0x02])] ble_initial
      = Some (ble_initial\<lparr>buttonless_noti := True,
                errors := [''Unexpected response (%zd) %x %x %x'']\<rparr>)
   \<and> returned (ble_enter_dfu buttonless_radio ''hci0'' ''app'' 1 ble_initial) = Some True
   \<and> calls_made (ble_enter_dfu buttonless_radio ''hci0'' ''app'' 1 ble_initial)
       = Some [BlzInit ''hci0'', BlzConnect ''app'' 1, GetServ DFU_SERVICE_UUID,
            GetChar DFU_BUTTONLESS_UUID,
            IndicateStart DFU_BUTTONLESS_UUID, CharWrite DFU_BUTTONLESS_UUID [0x01],
            LoopTimeout 10000000, Disconnect, BlzConnect ''dfutarg'' 1,
            GetServ DFU_SERVICE_UUID, GetChar DFU_DATA_UUID, GetChar DFU_CONTROL_UUID,
            NotifyStart DFU_CONTROL_UUID]"
proof -
  have n: "\<not> buttonless_noti ble_initial" by (simp add: ble_initial_def)
  have e: "errors ble_initial = []" by (simp add: ble_initial_def)
  have w: "blz_loop_timeout buttonless_notify_handler buttonless_noti 10000000
        [(1000, [0x20, 0x01, 0x02])] ble_initial
      = Some (ble_initial\<lparr>buttonless_noti := True,
                errors := [''Unexpected response (%zd) %x %x %x'']\<rparr>)"
    using wait_wrong_byte [OF n] unfolding e by simp
  have r: "returned (ble_enter_dfu buttonless_radio ''hci0'' ''app'' 1 ble_initial) = Some True"
    unfolding ble_enter_dfu_buttonless_demo returned_def by simp
  have m: "calls_made (ble_enter_dfu buttonless_radio ''hci0'' ''app'' 1 ble_initial)
       = Some [BlzInit ''hci0'', BlzConnect ''app'' 1, GetServ DFU_SERVICE_UUID,
            GetChar DFU_BUTTONLESS_UUID,
            IndicateStart DFU_BUTTONLESS_UUID, CharWrite DFU_BUTTONLESS_UUID [0x01],
            LoopTimeout 10000000, Disconnect, BlzConnect ''dfutarg'' 1,
            GetServ DFU_SERVICE_UUID, GetChar DFU_DATA_UUID, GetChar DFU_CONTROL_UUID,
            NotifyStart DFU_CONTROL_UUID]"
    unfolding ble_enter_dfu_buttonless_demo calls_made_def by simp
  show ?thesis
    by (intro conjI) (rule buttonless_radio_sel w r m)+
qed

theorem buttonless_wait_any_notification_witness:
  "\<not> buttonless_noti ble_initial \<and> (1000::nat) < 10000000
   \<and> 3 \<le> length [0x20, 0x01, 0x02 :: byte]
   \<and> blz_loop_timeout buttonless_notify_handler buttonless_noti 10000000
        [(1000, [0x20, 0x01, 0x02])] ble_initial
      = Some (ble_initial\<lparr>buttonless_noti := True,
                errors := errors ble_initial @ [''Unexpected response (%zd) %x %x %x'']\<rparr>)
   \<and> c_indicate_ok buttonless_char \<and> c_write_ok buttonless_char
   \<and> returned (enter_buttonless buttonless_radio ''app'' 1 buttonless_char ble_initial)
       = Some True
   \<and> calls_made (enter_buttonless buttonless_radio ''app'' 1 buttonless_char ble_initial)
       = Some [IndicateStart DFU_BUTTONLESS_UUID, CharWrite DFU_BUTTONLESS_UUID [0x01],
            LoopTimeout 10000000, Disconnect, BlzConnect ''dfutarg'' 1,
            GetServ DFU_SERVICE_UUID, GetChar DFU_DATA_UUID, GetChar DFU_CONTROL_UUID,
            NotifyStart DFU_CONTROL_UUID]"
proof -
  have a: "\<not> buttonless_noti ble_initial" by (simp add: ble_initial_def)
  have b: "(1000::nat) < 10000000" by simp
  have c: "3 \<le> length [0x20, 0x01, 0x02 :: byte]" by simp
  note T = buttonless_wait_any_notification
    [of ble_initial 1000 "[0x20, 0x01, 0x02]" "[]"
        buttonless_char buttonless_radio "''app''" 1 ble_initial]
  from T [THEN conjunct1] a b c
  have w: "blz_loop_timeout buttonless_notify_handler buttonless_noti 10000000
        [(1000, [0x20, 0x01, 0x02])] ble_initial
      = Some (ble_initial\<lparr>buttonless_noti := True,
                errors := errors ble_initial @ [''Unexpected response (%zd) %x %x %x'']\<rparr>)"
    by simp
  note d = enter_buttonless_demo [OF a]
  have r: "returned (enter_buttonless buttonless_radio ''app'' 1 buttonless_char ble_initial)
       = Some True"
    unfolding d returned_def by simp
  have m: "calls_made (enter_buttonless buttonless_radio ''app'' 1 buttonless_char ble_initial)
       = Some [IndicateStart DFU_BUTTONLESS_UUID, CharWrite DFU_BUTTONLESS_UUID [0x01],
            LoopTimeout 10000000, Disconnect, BlzConnect ''dfutarg'' 1,
            GetServ DFU_SERVICE_UUID, GetChar DFU_DATA_UUID, GetChar DFU_CONTROL_UUID,
            NotifyStart DFU_CONTROL_UUID]"
    unfolding d calls_made_def by (simp add: ble_initial_def)
  show ?thesis
    by (intro conjI) (rule a b c w buttonless_char_sel r m)+
qed

end
